theory Spec2Isabelle
  imports Complex_Main "HOL-Library.AList"
begin

section \<open>Strings\<close>

text \<open>
  Python strings are modelled as \<^typ>\<open>string\<close>: lists of 8-bit characters. All the
  strings the verified code inspects (file names, directory names, log lines) are
  compared against ASCII literals only, so a character outside ASCII behaves like any
  other character that is not in the literal.
\<close>

fun startswith :: "string \<Rightarrow> string \<Rightarrow> bool" where
  "startswith s [] = True"
| "startswith [] (p # ps) = False"
| "startswith (c # cs) (p # ps) = (c = p \<and> startswith cs ps)"

text \<open>\<open>str_in sub s\<close> is Python's \<^verbatim>\<open>sub in s\<close>.\<close>

fun str_in :: "string \<Rightarrow> string \<Rightarrow> bool" where
  "str_in sub [] = (sub = [])"
| "str_in sub (c # cs) = (if startswith (c # cs) sub then True else str_in sub cs)"

text \<open>\<open>str_find s sub\<close> is \<^verbatim>\<open>s.find(sub)\<close>, with \<open>None\<close> for \<^verbatim>\<open>-1\<close>.\<close>

fun str_find :: "string \<Rightarrow> string \<Rightarrow> nat option" where
  "str_find [] sub = (if sub = [] then Some 0 else None)"
| "str_find (c # cs) sub =
     (if startswith (c # cs) sub then Some 0 else map_option Suc (str_find cs sub))"

text \<open>\<open>rfind c s\<close> is \<^verbatim>\<open>s.rfind(c)\<close> for a single character.\<close>

primrec rfind :: "char \<Rightarrow> string \<Rightarrow> nat option" where
  "rfind c [] = None"
| "rfind c (x # xs) =
     (case rfind c xs of
        Some i \<Rightarrow> Some (Suc i)
      | None \<Rightarrow> if x = c then Some 0 else None)"

definition lower_char :: "char \<Rightarrow> char" where
  "lower_char c =
     (case map_of (zip ''ABCDEFGHIJKLMNOPQRSTUVWXYZ'' ''abcdefghijklmnopqrstuvwxyz'') c of
        Some d \<Rightarrow> d
      | None \<Rightarrow> c)"

definition lower :: "string \<Rightarrow> string" where
  "lower s = map lower_char s"

text \<open>
  \<^verbatim>\<open>Path(name).suffix\<close> of pathlib, for a name that is one path component:
  the part from the last dot on, unless that dot is the first or the last character.
\<close>

definition suffix :: "string \<Rightarrow> string" where
  "suffix name =
     (case rfind (CHR ''.'') name of
        None \<Rightarrow> []
      | Some i \<Rightarrow> if 0 < i \<and> i < length name - 1 then drop i name else [])"

text \<open>The whitespace that \<^verbatim>\<open>str.strip()\<close> removes, within ASCII.\<close>

definition is_space :: "char \<Rightarrow> bool" where
  "is_space c =
     (c \<in> set [CHR '' '', CHR 0x09, CHR 0x0A, CHR 0x0B, CHR 0x0C, CHR 0x0D,
               CHR 0x1C, CHR 0x1D, CHR 0x1E, CHR 0x1F])"

definition strip :: "string \<Rightarrow> string" where
  "strip s = rev (dropWhile is_space (rev (dropWhile is_space s)))"

text \<open>\<open>split_first s sep\<close> is \<^verbatim>\<open>s.split(sep)[0]\<close>.\<close>

definition split_first :: "string \<Rightarrow> string \<Rightarrow> string" where
  "split_first s sep = (case str_find s sep of None \<Rightarrow> s | Some i \<Rightarrow> take i s)"

text \<open>
  Reading a text file: the universal-newlines translation of \<^verbatim>\<open>open(..., 'r')\<close>
  followed by \<^verbatim>\<open>readlines()\<close>, which keeps the line ends.
\<close>

fun universal_newlines :: "string \<Rightarrow> string" where
  "universal_newlines [] = []"
| "universal_newlines [c] = (if c = CHR 0x0D then [CHR 0x0A] else [c])"
| "universal_newlines (c # d # cs) =
     (if c = CHR 0x0D then
        (if d = CHR 0x0A then CHR 0x0A # universal_newlines cs
         else CHR 0x0A # universal_newlines (d # cs))
      else c # universal_newlines (d # cs))"

fun readlines_acc :: "string \<Rightarrow> string \<Rightarrow> string list" where
  "readlines_acc acc [] = (if acc = [] then [] else [rev acc])"
| "readlines_acc acc (c # cs) =
     (if c = CHR 0x0A then rev (c # acc) # readlines_acc [] cs
      else readlines_acc (c # acc) cs)"

definition readlines :: "string \<Rightarrow> string list" where
  "readlines content = readlines_acc [] (universal_newlines content)"

section \<open>Dates and times\<close>

text \<open>
  A naive \<^verbatim>\<open>datetime\<close> is its position on the proleptic Gregorian time line, in
  microseconds since 0001-01-01T00:00:00; a \<^verbatim>\<open>timedelta\<close> is a number of
  microseconds. The calendar functions below are the ones of the standard library
  (\<^verbatim>\<open>_is_leap\<close>, \<^verbatim>\<open>_days_before_year\<close>, \<^verbatim>\<open>_ymd2ord\<close>, \<^verbatim>\<open>_ord2ymd\<close>). The library
  restricts years to 1..9999; the theorems that depend on it carry \<open>valid_datetime\<close>.
\<close>

type_synonym datetime = int

definition us_per_second :: int where
  "us_per_second = 1000000"

definition us_per_day :: int where
  "us_per_day = 86400000000"

definition timedelta_days :: "int \<Rightarrow> int" where
  "timedelta_days n = n * us_per_day"

definition is_leap :: "int \<Rightarrow> bool" where
  "is_leap year =
     (if year mod 4 = 0 then (if year mod 100 = 0 then year mod 400 = 0 else True)
      else False)"

definition days_before_year :: "int \<Rightarrow> int" where
  "days_before_year year =
     (let y = year - 1 in y * 365 + y div 4 - y div 100 + y div 400)"

definition DAYS_IN_MONTH :: "int list" where
  "DAYS_IN_MONTH = [-1, 31, 28, 31, 30, 31, 30, 31, 31, 30, 31, 30, 31]"

definition DAYS_BEFORE_MONTH :: "int list" where
  "DAYS_BEFORE_MONTH = [-1, 0, 31, 59, 90, 120, 151, 181, 212, 243, 273, 304, 334]"

definition days_in_month :: "int \<Rightarrow> int \<Rightarrow> int" where
  "days_in_month year month =
     (if month = 2 \<and> is_leap year then 29 else DAYS_IN_MONTH ! nat month)"

definition days_before_month :: "int \<Rightarrow> int \<Rightarrow> int" where
  "days_before_month year month =
     DAYS_BEFORE_MONTH ! nat month + (if 2 < month \<and> is_leap year then 1 else 0)"

definition ymd2ord :: "int \<Rightarrow> int \<Rightarrow> int \<Rightarrow> int" where
  "ymd2ord year month day = days_before_year year + days_before_month year month + day"

text \<open>
  The end of \<^verbatim>\<open>_ord2ymd\<close>: month and day from the zero-based day of the year
  (an estimate of the month that is too large by at most one, then the correction).
\<close>

definition month_day :: "bool \<Rightarrow> int \<Rightarrow> int \<times> int" where
  "month_day leapyear n =
     (let month = (n + 50) div 32;
          preceding = DAYS_BEFORE_MONTH ! nat month
                      + (if 2 < month \<and> leapyear then 1 else 0)
      in if n < preceding then
           let month = month - 1;
               preceding = preceding
                 - (DAYS_IN_MONTH ! nat month + (if month = 2 \<and> leapyear then 1 else 0))
           in (month, n - preceding + 1)
         else (month, n - preceding + 1))"

definition ord2ymd :: "int \<Rightarrow> int \<times> int \<times> int" where
  "ord2ymd ordinal =
     (let n = ordinal - 1;
          n400 = n div 146097; n = n mod 146097;
          year = n400 * 400 + 1;
          n100 = n div 36524; n = n mod 36524;
          n4 = n div 1461; n = n mod 1461;
          n1 = n div 365; n = n mod 365;
          year = year + n100 * 100 + n4 * 4 + n1
      in if n1 = 4 \<or> n100 = 4 then (year - 1, 12, 31)
         else
           let leapyear = (n1 = 3 \<and> (if n4 = 24 then n100 = 3 else True))
           in case month_day leapyear n of (month, day) \<Rightarrow> (year, month, day))"

text \<open>The constructor \<^verbatim>\<open>datetime(year, month, day, hour, minute, second, microsecond)\<close>.\<close>

definition mk_datetime :: "int \<Rightarrow> int \<Rightarrow> int \<Rightarrow> int \<Rightarrow> int \<Rightarrow> int \<Rightarrow> int \<Rightarrow> datetime" where
  "mk_datetime y m d hh mi ss us =
     (((ymd2ord y m d - 1) * 24 + hh) * 60 + mi) * 60 * us_per_second
       + ss * us_per_second + us"

definition toordinal :: "datetime \<Rightarrow> int" where
  "toordinal t = t div us_per_day + 1"

definition valid_datetime :: "datetime \<Rightarrow> bool" where
  "valid_datetime t = (1 \<le> toordinal t \<and> toordinal t \<le> 3652059)"

definition digit_char :: "int \<Rightarrow> char" where
  "digit_char n = ''0123456789'' ! nat n"

definition pad2 :: "int \<Rightarrow> string" where
  "pad2 n = [digit_char (n div 10 mod 10), digit_char (n mod 10)]"

definition pad4 :: "int \<Rightarrow> string" where
  "pad4 n = pad2 (n div 100) @ pad2 (n mod 100)"

definition pad6 :: "int \<Rightarrow> string" where
  "pad6 n = pad2 (n div 10000) @ pad4 (n mod 10000)"

text \<open>
  \<^verbatim>\<open>strftime("%Y-%m-%d")\<close>, with the year zero-padded to four digits (what the
  library documents, and what every platform prints for the years 1000..9999).
\<close>

definition strftime_ymd :: "datetime \<Rightarrow> string" where
  "strftime_ymd t =
     (case ord2ymd (toordinal t) of
        (y, m, d) \<Rightarrow> pad4 y @ ''-'' @ pad2 m @ ''-'' @ pad2 d)"

definition digit_val :: "char \<Rightarrow> int option" where
  "digit_val c = map_of (zip ''0123456789'' [0, 1, 2, 3, 4, 5, 6, 7, 8, 9]) c"

text \<open>\<open>digits_val\<close> reads a string of decimal digits; \<open>None\<close> when a character is not one.\<close>

fun digits_acc :: "int \<Rightarrow> string \<Rightarrow> int option" where
  "digits_acc acc [] = Some acc"
| "digits_acc acc (c # cs) =
     (case digit_val c of None \<Rightarrow> None | Some v \<Rightarrow> digits_acc (acc * 10 + v) cs)"

definition digits_val :: "string \<Rightarrow> int option" where
  "digits_val s = (if s = [] then None else digits_acc 0 s)"

text \<open>
  \<^verbatim>\<open>datetime.strptime(s, "%Y-%m-%d")\<close>. The library matches the regular expression
  \<^verbatim>\<open>(\d\d\d\d)-(1[0-2]|0[1-9]|[1-9])-(3[0-1]|[1-2]\d|0[1-9]|[1-9]| [1-9])\<close>
  against the whole string and then builds the date, which fails for the year 0 and for
  a day past the end of the month. \<open>None\<close> is the \<^verbatim>\<open>ValueError\<close>.
\<close>

definition parse_month :: "string \<Rightarrow> int option" where
  "parse_month s =
     (case s of
        [a] \<Rightarrow> (if a \<in> set ''123456789'' then digit_val a else None)
      | [a, b] \<Rightarrow>
          (if a = CHR ''1'' \<and> b \<in> set ''012'' then digits_val s
           else if a = CHR ''0'' \<and> b \<in> set ''123456789'' then digits_val s
           else None)
      | _ \<Rightarrow> None)"

definition parse_day :: "string \<Rightarrow> int option" where
  "parse_day s =
     (case s of
        [a] \<Rightarrow> (if a \<in> set ''123456789'' then digit_val a else None)
      | [a, b] \<Rightarrow>
          (if a = CHR ''3'' \<and> b \<in> set ''01'' then digits_val s
           else if a \<in> set ''12'' \<and> b \<in> set ''0123456789'' then digits_val s
           else if a = CHR ''0'' \<and> b \<in> set ''123456789'' then digits_val s
           else if a = CHR '' '' \<and> b \<in> set ''123456789'' then digit_val b
           else None)
      | _ \<Rightarrow> None)"

definition make_date :: "int \<Rightarrow> int \<Rightarrow> int \<Rightarrow> datetime option" where
  "make_date y m d =
     (if 1 \<le> y \<and> y \<le> 9999 \<and> 1 \<le> m \<and> m \<le> 12 \<and> 1 \<le> d \<and> d \<le> days_in_month y m
      then Some (mk_datetime y m d 0 0 0 0) else None)"

definition strptime_ymd :: "string \<Rightarrow> datetime option" where
  "strptime_ymd s =
     (if length s < 5 then None
      else if s ! 4 \<noteq> CHR ''-'' then None
      else
        case digits_val (take 4 s) of
          None \<Rightarrow> None
        | Some y \<Rightarrow>
            (let rest = drop 5 s in
             case str_find rest ''-'' of
               None \<Rightarrow> None
             | Some i \<Rightarrow>
                 (case parse_month (take i rest) of
                    None \<Rightarrow> None
                  | Some m \<Rightarrow>
                      (case parse_day (drop (Suc i) rest) of
                         None \<Rightarrow> None
                       | Some d \<Rightarrow> make_date y m d))))"

section \<open>File names\<close>

definition allowed_chars :: "char list" where
  "allowed_chars = ''abcdefghijklmnopqrstuvwxyzABCDEFGHIJKLMNOPQRSTUVWXYZ0123456789_.-''"

definition allowed_extensions :: "string list" where
  "allowed_extensions = [''.png'', ''.jpg'', ''.jpeg'']"

definition validate_filename :: "string \<Rightarrow> bool" where
  "validate_filename filename =
     (if filename = [] then False
      else if str_in ''..'' filename then False
      else if str_in ''/'' filename then False
      else if str_in [CHR 0x5C] filename then False
      else if list_ex (\<lambda>c. c \<notin> set allowed_chars) filename then False
      else if lower (suffix filename) \<in> set allowed_extensions then True
      else False)"

section \<open>The artifact directory\<close>

text \<open>
  The directory tree under the base directory, two levels deep as the code walks it.
  An entry of the base directory is a directory (a day-bucket or any other directory) or
  something that is not one; an entry of a directory is a regular file, with the size and
  the creation time that \<^verbatim>\<open>stat()\<close> reports, or something that is not a regular
  file (a subdirectory). The lists are in \<^verbatim>\<open>iterdir()\<close> order. The cleanup log
  \<^verbatim>\<open>cleanup_log.txt\<close>, a regular file of the base directory, is kept apart: \<open>None\<close>
  when the file does not exist, its content otherwise.
\<close>

datatype dirent = File (st_size: nat) (st_ctime: datetime) | Subdir

datatype node = Plain | Directory "(string \<times> dirent) list"

record filesystem =
  root :: "(string \<times> node) list"
  cleanup_log :: "string option"

record file_manager =
  base_directory :: string
  max_age_days :: int

text \<open>
  A path below the base directory is the list of its components; \<open>str_path\<close> is
  \<^verbatim>\<open>str(path)\<close>. File names are single path components here: a name with a
  separator, or one of the names \<^verbatim>\<open>.\<close> and \<^verbatim>\<open>..\<close>, leaves the modelled tree.
\<close>

type_synonym path = "string list"

definition joinpath :: "string \<Rightarrow> string \<Rightarrow> string" where
  "joinpath a b = a @ ''/'' @ b"

definition str_path :: "file_manager \<Rightarrow> path \<Rightarrow> string" where
  "str_path fm p = foldl joinpath (base_directory fm) p"

definition is_component :: "string \<Rightarrow> bool" where
  "is_component name =
     (name \<noteq> [] \<and> name \<noteq> ''.'' \<and> name \<noteq> ''..'' \<and> CHR ''/'' \<notin> set name)"

fun path_exists :: "filesystem \<Rightarrow> path \<Rightarrow> bool" where
  "path_exists fs [] = True"
| "path_exists fs [d] = (map_of (root fs) d \<noteq> None)"
| "path_exists fs [d, f] =
     (case map_of (root fs) d of
        Some (Directory es) \<Rightarrow> map_of es f \<noteq> None
      | Some Plain \<Rightarrow> False
      | None \<Rightarrow> False)"
| "path_exists fs (d # f # g # p) = False"

definition get_storage_path :: "datetime \<Rightarrow> datetime option \<Rightarrow> path" where
  "get_storage_path now date =
     (let date = (case date of None \<Rightarrow> now | Some d \<Rightarrow> d);
          date_dir = strftime_ymd date
      in [date_dir])"

text \<open>
  \<open>get_file_path\<close>: with a date, that bucket only; without one, the buckets of the last
  seven days, today first. \<open>search_recent\<close> is the \<^verbatim>\<open>for days_back in range(7)\<close> loop.
\<close>

fun search_recent :: "filesystem \<Rightarrow> datetime \<Rightarrow> string \<Rightarrow> int list \<Rightarrow> path option" where
  "search_recent fs now filename [] = None"
| "search_recent fs now filename (days_back # rest) =
     (let search_date = now - timedelta_days days_back;
          filepath = get_storage_path now (Some search_date) @ [filename]
      in if path_exists fs filepath then Some filepath
         else search_recent fs now filename rest)"

definition get_file_path ::
  "filesystem \<Rightarrow> datetime \<Rightarrow> string \<Rightarrow> datetime option \<Rightarrow> path option" where
  "get_file_path fs now filename date =
     (case date of
        Some d \<Rightarrow>
          (let filepath = get_storage_path now (Some d) @ [filename]
           in if path_exists fs filepath then Some filepath else None)
      | None \<Rightarrow> search_recent fs now filename [0, 1, 2, 3, 4, 5, 6])"

text \<open>
  \<open>get_file_info\<close> validates the name and only then resolves it.
\<close>

record file_stat =
  fs_filename :: string
  fs_filepath :: string
  fs_size :: nat
  fs_created :: datetime
  fs_extension :: string

definition stat_path :: "filesystem \<Rightarrow> path \<Rightarrow> dirent option" where
  "stat_path fs p =
     (case p of
        [d, f] \<Rightarrow>
          (case map_of (root fs) d of
             Some (Directory es) \<Rightarrow> map_of es f
           | Some Plain \<Rightarrow> None
           | None \<Rightarrow> None)
      | _ \<Rightarrow> None)"

definition get_file_info ::
  "file_manager \<Rightarrow> filesystem \<Rightarrow> datetime \<Rightarrow> string \<Rightarrow> file_stat option" where
  "get_file_info fm fs now filename =
     (if validate_filename filename then
        (case get_file_path fs now filename None of
           None \<Rightarrow> None
         | Some filepath \<Rightarrow>
             (case stat_path fs filepath of
                Some (File sz ct) \<Rightarrow>
                  Some \<lparr>fs_filename = filename, fs_filepath = str_path fm filepath,
                        fs_size = sz, fs_created = ct,
                        fs_extension = lower (suffix filename)\<rparr>
              | Some Subdir \<Rightarrow> None
              | None \<Rightarrow> None))
      else None)"

definition remove_entry :: "filesystem \<Rightarrow> string \<Rightarrow> string \<Rightarrow> filesystem" where
  "remove_entry fs d f =
     fs\<lparr>root := map (\<lambda>(name, nd).
            if name = d then
              (case nd of
                 Directory es \<Rightarrow> (name, Directory (AList.delete f es))
               | Plain \<Rightarrow> (name, nd))
            else (name, nd)) (root fs)\<rparr>"

subsection \<open>Listing and statistics\<close>

record file_info =
  fi_filename :: string
  fi_filepath :: string
  fi_size :: nat
  fi_created :: datetime
  fi_date :: string

text \<open>The inner loop of \<open>list_files\<close> over one directory.\<close>

definition list_dir :: "file_manager \<Rightarrow> string \<Rightarrow> (string \<times> dirent) list \<Rightarrow> file_info list" where
  "list_dir fm date_name es =
     concat (map (\<lambda>(name, e).
       case e of
         File sz ct \<Rightarrow>
           (if validate_filename name then
              [\<lparr>fi_filename = name, fi_filepath = str_path fm [date_name, name],
                fi_size = sz, fi_created = ct, fi_date = date_name\<rparr>]
            else [])
       | Subdir \<Rightarrow> []) es)"

text \<open>\<^verbatim>\<open>xs[:n]\<close>, also for a negative \<open>n\<close>.\<close>

definition slice_to :: "int \<Rightarrow> 'a list \<Rightarrow> 'a list" where
  "slice_to n xs =
     (if n < 0 then take (nat (int (length xs) + n)) xs else take (nat n) xs)"

text \<open>
  \<^verbatim>\<open>files.sort(key=..., reverse=True)\<close>: descending, and stable on equal keys.
\<close>

definition sort_newest_first :: "file_info list \<Rightarrow> file_info list" where
  "sort_newest_first files = rev (sort_key fi_created (rev files))"

text \<open>
  The two enumerations of \<open>list_files\<close>; \<open>None\<close> when the bucket of the given date
  is not a directory, where \<^verbatim>\<open>iterdir()\<close> raises and the handler returns the empty list.
\<close>

definition collect_files ::
  "file_manager \<Rightarrow> filesystem \<Rightarrow> datetime option \<Rightarrow> file_info list option" where
  "collect_files fm fs date =
     (case date of
        Some d \<Rightarrow>
          (case map_of (root fs) (strftime_ymd d) of
             None \<Rightarrow> Some []
           | Some Plain \<Rightarrow> None
           | Some (Directory es) \<Rightarrow> Some (list_dir fm (strftime_ymd d) es))
      | None \<Rightarrow>
          Some (concat (map (\<lambda>(name, nd).
            case nd of
              Directory es \<Rightarrow>
                (if name = ''__pycache__'' then [] else list_dir fm name es)
            | Plain \<Rightarrow> []) (root fs))))"

definition list_files ::
  "file_manager \<Rightarrow> filesystem \<Rightarrow> datetime option \<Rightarrow> int option \<Rightarrow> file_info list" where
  "list_files fm fs date limit =
     (case collect_files fm fs date of
        None \<Rightarrow> []
      | Some files \<Rightarrow>
          (let files = sort_newest_first files
           in case limit of
                None \<Rightarrow> files
              | Some n \<Rightarrow> if n = 0 then files else slice_to n files))"

text \<open>
  \<open>get_storage_stats\<close>. The sizes of the regular files of one directory are
  \<open>file_sizes\<close>; the megabyte figure, a rounded float, is left out of the record.
\<close>

record dir_stats =
  ds_date :: string
  ds_files :: nat
  ds_size :: nat

record storage_stats =
  total_files :: nat
  total_size :: nat
  directories :: "dir_stats list"

definition file_sizes :: "(string \<times> dirent) list \<Rightarrow> nat list" where
  "file_sizes es =
     concat (map (\<lambda>(name, e). case e of File sz ct \<Rightarrow> [sz] | Subdir \<Rightarrow> []) es)"

definition scanned_dirs :: "filesystem \<Rightarrow> (string \<times> (string \<times> dirent) list) list" where
  "scanned_dirs fs =
     concat (map (\<lambda>(name, nd).
       case nd of
         Directory es \<Rightarrow> (if name = ''__pycache__'' then [] else [(name, es)])
       | Plain \<Rightarrow> []) (root fs))"

definition get_storage_stats :: "filesystem \<Rightarrow> storage_stats" where
  "get_storage_stats fs =
     (let per_dir = map (\<lambda>(name, es).
            \<lparr>ds_date = name, ds_files = length (file_sizes es),
             ds_size = sum_list (file_sizes es)\<rparr>) (scanned_dirs fs)
      in \<lparr>total_files = sum_list (map ds_files per_dir),
          total_size = sum_list (map ds_size per_dir),
          directories = filter (\<lambda>ds. 0 < ds_files ds) per_dir\<rparr>)"

subsection \<open>Saving\<close>

text \<open>
  What the operating system can refuse while \<open>save_file\<close> runs: creating the bucket,
  opening the file, the write (after so many bytes have reached the disk), the
  \<^verbatim>\<open>stat()\<close> after it. Every exception leaves \<open>save_file\<close> as a \<^verbatim>\<open>RuntimeError\<close>.
\<close>

datatype save_fault = NoFault | MkdirFails | OpenFails | WriteFails nat | StatFails

datatype error = RuntimeError

record save_info =
  sv_filename :: string
  sv_filepath :: string
  sv_relative_path :: string
  sv_size :: nat
  sv_date :: string

definition ensure_storage_directory ::
  "save_fault \<Rightarrow> filesystem \<Rightarrow> string \<Rightarrow> error + filesystem" where
  "ensure_storage_directory fault fs date_dir =
     (if fault = MkdirFails then Inl RuntimeError
      else case map_of (root fs) date_dir of
             None \<Rightarrow> Inr (fs\<lparr>root := root fs @ [(date_dir, Directory [])]\<rparr>)
           | Some (Directory es) \<Rightarrow> Inr fs
           | Some Plain \<Rightarrow> Inl RuntimeError)"

definition write_entry :: "filesystem \<Rightarrow> string \<Rightarrow> string \<Rightarrow> dirent \<Rightarrow> filesystem" where
  "write_entry fs d f e =
     fs\<lparr>root := map (\<lambda>(name, nd).
            if name = d then
              (case nd of
                 Directory es \<Rightarrow> (name, Directory (AList.update f e es))
               | Plain \<Rightarrow> (name, nd))
            else (name, nd)) (root fs)\<rparr>"

definition save_file ::
  "file_manager \<Rightarrow> save_fault \<Rightarrow> datetime \<Rightarrow> filesystem \<Rightarrow> string \<Rightarrow> string \<Rightarrow>
     datetime option \<Rightarrow> filesystem \<times> (error + save_info)" where
  "save_file fm fault now fs file_data filename date =
     (let date_dir = hd (get_storage_path now date) in
      case ensure_storage_directory fault fs date_dir of
        Inl e \<Rightarrow> (fs, Inl RuntimeError)
      | Inr fs1 \<Rightarrow>
          (let filepath = [date_dir, filename] in
           if fault = OpenFails then (fs1, Inl RuntimeError)
           else if stat_path fs1 filepath = Some Subdir then (fs1, Inl RuntimeError)
           else
             (case fault of
                WriteFails n \<Rightarrow>
                  (write_entry fs1 date_dir filename
                     (File (min n (length file_data)) now), Inl RuntimeError)
              | _ \<Rightarrow>
                  (let fs2 = write_entry fs1 date_dir filename (File (length file_data) now)
                   in if fault = StatFails then (fs2, Inl RuntimeError)
                      else
                        (case stat_path fs2 filepath of
                           Some (File file_size ct) \<Rightarrow>
                             (fs2, Inr \<lparr>sv_filename = filename,
                                        sv_filepath = str_path fm filepath,
                                        sv_relative_path = joinpath date_dir filename,
                                        sv_size = file_size,
                                        sv_date = date_dir\<rparr>)
                         | Some Subdir \<Rightarrow> (fs2, Inl RuntimeError)
                         | None \<Rightarrow> (fs2, Inl RuntimeError))))))"

text \<open>
  The one caller of \<open>save_file\<close>: the end of \<open>save_image\<close> of the image
  generation service, from the encoded image bytes on (the encoding itself is outside
  the model). Empty data and data over 50 MB are refused before \<open>save_file\<close> is
  called; the date is left to \<open>save_file\<close>.
\<close>

record saved_image =
  im_filename :: string
  im_filepath :: string
  im_relative_path :: string
  im_size :: nat

definition save_image ::
  "file_manager \<Rightarrow> save_fault \<Rightarrow> datetime \<Rightarrow> filesystem \<Rightarrow> string \<Rightarrow> string \<Rightarrow>
     filesystem \<times> (error + saved_image)" where
  "save_image fm fault now fs image_data filename =
     (if length image_data = 0 then (fs, Inl RuntimeError)
      else if 50 * 1024 * 1024 < int (length image_data) then (fs, Inl RuntimeError)
      else
        case save_file fm fault now fs image_data filename None of
          (fs1, Inl e) \<Rightarrow> (fs1, Inl RuntimeError)
        | (fs1, Inr file_info) \<Rightarrow>
            (if sv_filename file_info = [] then (fs1, Inl RuntimeError)
             else (fs1, Inr \<lparr>im_filename = sv_filename file_info,
                              im_filepath = sv_filepath file_info,
                              im_relative_path = sv_relative_path file_info,
                              im_size = sv_size file_info\<rparr>)))"

section \<open>Retention\<close>

text \<open>
  What the operating system permits during a sweep: removing a file, removing an
  (empty) directory, appending to the cleanup log. A refusal raises in the code, and the
  code catches it and goes on. Reading a directory and \<^verbatim>\<open>stat()\<close> are taken to
  succeed. The clock is read once per call.
\<close>

record os_env =
  unlink_ok :: "path \<Rightarrow> bool"
  rmdir_ok :: "string \<Rightarrow> bool"
  log_ok :: bool

record candidate =
  cd_filepath :: path
  cd_filename :: string
  cd_size :: nat
  cd_date :: string
  cd_age_days :: int

record cleanup_result =
  cr_dry_run :: bool
  cr_cutoff_date :: string
  cr_max_age_days :: int
  files_found :: nat
  files_deleted :: nat
  directories_deleted :: nat
  size_freed_bytes :: nat
  potential_size_to_free_bytes :: nat

text \<open>The files of one directory that is old enough, as deletion candidates.\<close>

definition dir_candidates ::
  "datetime \<Rightarrow> string \<Rightarrow> datetime \<Rightarrow> (string \<times> dirent) list \<Rightarrow> candidate list" where
  "dir_candidates now date_name dir_date es =
     concat (map (\<lambda>(name, e).
       case e of
         File sz ct \<Rightarrow>
           [\<lparr>cd_filepath = [date_name, name], cd_filename = name, cd_size = sz,
             cd_date = date_name, cd_age_days = (now - dir_date) div us_per_day\<rparr>]
       | Subdir \<Rightarrow> []) es)"

text \<open>
  The enumeration loop of \<open>cleanup_old_files\<close>: a directory whose name
  \<^verbatim>\<open>strptime\<close> rejects is skipped (the \<^verbatim>\<open>except ValueError: continue\<close>).
\<close>

definition files_to_delete :: "file_manager \<Rightarrow> datetime \<Rightarrow> filesystem \<Rightarrow> candidate list" where
  "files_to_delete fm now fs =
     (let cutoff_date = now - timedelta_days (max_age_days fm)
      in concat (map (\<lambda>(name, nd).
           case nd of
             Plain \<Rightarrow> []
           | Directory es \<Rightarrow>
               (if name = ''__pycache__'' then []
                else case strptime_ymd name of
                       None \<Rightarrow> []
                     | Some dir_date \<Rightarrow>
                         (if dir_date < cutoff_date
                          then dir_candidates now name dir_date es else []))) (root fs)))"

text \<open>The deletion loop: a file that no longer exists, or that cannot be removed, is passed over.\<close>

fun delete_files ::
  "os_env \<Rightarrow> candidate list \<Rightarrow> filesystem \<Rightarrow> candidate list \<Rightarrow> filesystem \<times> candidate list" where
  "delete_files env [] fs deleted_files = (fs, deleted_files)"
| "delete_files env (file_info # rest) fs deleted_files =
     (let filepath = cd_filepath file_info in
      if path_exists fs filepath then
        (if unlink_ok env filepath
         then delete_files env rest
                (remove_entry fs (cd_date file_info) (cd_filename file_info))
                (deleted_files @ [file_info])
         else delete_files env rest fs deleted_files)
      else delete_files env rest fs deleted_files)"

text \<open>
  The pruning loop: every directory of the base directory other than \<^verbatim>\<open>__pycache__\<close>
  that is empty is removed. It returns the entries that stay and the names removed.
\<close>

fun prune_dirs :: "os_env \<Rightarrow> (string \<times> node) list \<Rightarrow> (string \<times> node) list \<times> string list" where
  "prune_dirs env [] = ([], [])"
| "prune_dirs env ((name, nd) # rest) =
     (case prune_dirs env rest of
        (kept, deleted_directories) \<Rightarrow>
          (case nd of
             Plain \<Rightarrow> ((name, nd) # kept, deleted_directories)
           | Directory es \<Rightarrow>
               (if name = ''__pycache__'' then ((name, nd) # kept, deleted_directories)
                else if es = [] \<and> rmdir_ok env name
                     then (kept, name # deleted_directories)
                     else ((name, nd) # kept, deleted_directories))))"

text \<open>Decimal text of a natural number, as \<^verbatim>\<open>str(n)\<close>.\<close>

fun str_nat_acc :: "nat \<Rightarrow> nat \<Rightarrow> string \<Rightarrow> string" where
  "str_nat_acc 0 n acc = acc"
| "str_nat_acc (Suc fuel) n acc =
     (if n < 10 then digit_char (int n) # acc
      else str_nat_acc fuel (n div 10) (digit_char (int (n mod 10)) # acc))"

definition str_nat :: "nat \<Rightarrow> string" where
  "str_nat n = str_nat_acc (Suc n) n []"

text \<open>
  The text of \<^verbatim>\<open>round(size / (1024 * 1024), 2)\<close>: the quotient is exact in binary
  floating point for every size below \<open>2^53\<close>, \<^verbatim>\<open>round\<close> takes it to the nearest
  hundredth (a tie to the even one), and the float prints with one or two decimals.
\<close>

definition size_mb_text :: "nat \<Rightarrow> string" where
  "size_mb_text size_bytes =
     (let q = (int size_bytes * 100) div 1048576;
          r = (int size_bytes * 100) mod 1048576;
          h = (if 524288 < r then q + 1
               else if r < 524288 then q
               else if q mod 2 = 0 then q else q + 1)
      in str_nat (nat (h div 100)) @ ''.'' @
         (if h mod 10 = 0 then [digit_char (h div 10 mod 10)]
          else pad2 (h mod 100)))"

text \<open>\<^verbatim>\<open>datetime.isoformat()\<close> of a naive datetime.\<close>

definition isoformat :: "datetime \<Rightarrow> string" where
  "isoformat t =
     (case ord2ymd (toordinal t) of
        (y, m, d) \<Rightarrow>
          (let r = t mod us_per_day;
               hh = r div (3600 * us_per_second);
               mi = r div (60 * us_per_second) mod 60;
               ss = r div us_per_second mod 60;
               us = r mod us_per_second
           in pad4 y @ ''-'' @ pad2 m @ ''-'' @ pad2 d @ ''T'' @
              pad2 hh @ '':'' @ pad2 mi @ '':'' @ pad2 ss @
              (if us = 0 then [] else ''.'' @ pad6 us)))"

definition log_entry :: "datetime \<Rightarrow> cleanup_result \<Rightarrow> string" where
  "log_entry now results =
     isoformat now @ '' - '' @
     ''Cleanup '' @ (if cr_dry_run results then ''(DRY RUN)'' else []) @ '': '' @
     ''Found '' @ str_nat (files_found results) @ '' files, '' @
     ''Deleted '' @ str_nat (files_deleted results) @ '' files, '' @
     ''Freed '' @ size_mb_text (size_freed_bytes results) @ '' MB'' @ [CHR 0x0A]"

definition log_cleanup_results ::
  "os_env \<Rightarrow> datetime \<Rightarrow> filesystem \<Rightarrow> cleanup_result \<Rightarrow> filesystem" where
  "log_cleanup_results env now fs results =
     (if log_ok env then
        fs\<lparr>cleanup_log :=
             Some ((case cleanup_log fs of None \<Rightarrow> [] | Some content \<Rightarrow> content)
                   @ log_entry now results)\<rparr>
      else fs)"

definition cleanup_old_files ::
  "os_env \<Rightarrow> file_manager \<Rightarrow> datetime \<Rightarrow> filesystem \<Rightarrow> bool \<Rightarrow>
     filesystem \<times> cleanup_result" where
  "cleanup_old_files env fm now fs dry_run =
     (let cutoff_date = now - timedelta_days (max_age_days fm);
          found = files_to_delete fm now fs;
          total_size_to_free = sum_list (map cd_size found);
          (fs1, deleted_files, deleted_directories) =
            (if dry_run then (fs, [], [])
             else if found = [] then (fs, [], [])
             else
               (case delete_files env found fs [] of
                  (fs_d, deleted) \<Rightarrow>
                    (case prune_dirs env (root fs_d) of
                       (kept, dirs) \<Rightarrow> (fs_d\<lparr>root := kept\<rparr>, deleted, dirs))));
          cleanup_result =
            \<lparr>cr_dry_run = dry_run,
             cr_cutoff_date = strftime_ymd cutoff_date,
             cr_max_age_days = max_age_days fm,
             files_found = length found,
             files_deleted = length deleted_files,
             directories_deleted = length deleted_directories,
             size_freed_bytes = sum_list (map cd_size deleted_files),
             potential_size_to_free_bytes = total_size_to_free\<rparr>
      in (log_cleanup_results env now fs1 cleanup_result, cleanup_result))"

subsection \<open>Scheduling\<close>

text \<open>
  \<^verbatim>\<open>datetime.fromisoformat\<close>, for the strings the library documents since its
  introduction: \<^verbatim>\<open>YYYY-MM-DD[*HH[:MM[:SS[.fff[fff]]]][+HH:MM[:SS[.ffffff]]]]\<close>, where
  \<^verbatim>\<open>*\<close> is any one character. A string with a UTC offset gives an aware
  datetime. Newer versions of the library read more ISO 8601 forms; the strings
  \<open>isoformat\<close> writes are read alike by all of them. \<open>None\<close> is the \<^verbatim>\<open>ValueError\<close>.
\<close>

datatype iso_datetime = Naive datetime | Aware datetime int

definition two_digits :: "string \<Rightarrow> nat \<Rightarrow> int option" where
  "two_digits s i = (if length s < i + 2 then None else digits_val (take 2 (drop i s)))"

definition parse_hh_mm_ss_ff :: "string \<Rightarrow> (int \<times> int \<times> int \<times> int) option" where
  "parse_hh_mm_ss_ff s =
     (let n = length s in
      if n = 2 then
        (case two_digits s 0 of None \<Rightarrow> None | Some hh \<Rightarrow> Some (hh, 0, 0, 0))
      else if n = 5 \<and> s ! 2 = CHR '':'' then
        (case (two_digits s 0, two_digits s 3) of
           (Some hh, Some mi) \<Rightarrow> Some (hh, mi, 0, 0)
         | _ \<Rightarrow> None)
      else if (n = 8 \<or> n = 12 \<or> n = 15) \<and> s ! 2 = CHR '':'' \<and> s ! 5 = CHR '':'' then
        (case (two_digits s 0, two_digits s 3, two_digits s 6) of
           (Some hh, Some mi, Some ss) \<Rightarrow>
             (if n = 8 then Some (hh, mi, ss, 0)
              else if s ! 8 = CHR ''.'' then
                (case digits_val (drop 9 s) of
                   None \<Rightarrow> None
                 | Some f \<Rightarrow> Some (hh, mi, ss, if n = 12 then f * 1000 else f))
              else None)
         | _ \<Rightarrow> None)
      else None)"

definition make_datetime ::
  "int \<Rightarrow> int \<Rightarrow> int \<Rightarrow> int \<Rightarrow> int \<Rightarrow> int \<Rightarrow> int \<Rightarrow> datetime option" where
  "make_datetime y m d hh mi ss us =
     (if 1 \<le> y \<and> y \<le> 9999 \<and> 1 \<le> m \<and> m \<le> 12 \<and> 1 \<le> d \<and> d \<le> days_in_month y m
         \<and> 0 \<le> hh \<and> hh < 24 \<and> 0 \<le> mi \<and> mi < 60 \<and> 0 \<le> ss \<and> ss < 60
         \<and> 0 \<le> us \<and> us < 1000000
      then Some (mk_datetime y m d hh mi ss us) else None)"

text \<open>The position of the first \<^verbatim>\<open>+\<close> or \<^verbatim>\<open>-\<close> of the time part.\<close>

fun find_sign :: "string \<Rightarrow> nat option" where
  "find_sign [] = None"
| "find_sign (c # cs) =
     (if c = CHR ''+'' then Some 0
      else if c = CHR ''-'' then Some 0
      else map_option Suc (find_sign cs))"

definition parse_offset :: "string \<Rightarrow> int option" where
  "parse_offset s =
     (if length s = 5 \<or> length s = 8 \<or> length s = 15 then
        (case parse_hh_mm_ss_ff s of
           None \<Rightarrow> None
         | Some (hh, mi, ss, us) \<Rightarrow>
             (let off = ((hh * 60 + mi) * 60 + ss) * us_per_second + us
              in if off < us_per_day then Some off else None))
      else None)"

definition fromisoformat :: "string \<Rightarrow> iso_datetime option" where
  "fromisoformat s =
     (if length s < 10 then None
      else if s ! 4 \<noteq> CHR ''-'' then None
      else if s ! 7 \<noteq> CHR ''-'' then None
      else
        case (digits_val (take 4 s), two_digits s 5, two_digits s 8) of
          (Some y, Some m, Some d) \<Rightarrow>
            (let tstr = drop 11 s in
             if tstr = [] then map_option Naive (make_datetime y m d 0 0 0 0)
             else
               case find_sign tstr of
                 None \<Rightarrow>
                   (case parse_hh_mm_ss_ff tstr of
                      None \<Rightarrow> None
                    | Some (hh, mi, ss, us) \<Rightarrow>
                        map_option Naive (make_datetime y m d hh mi ss us))
               | Some i \<Rightarrow>
                   (case (parse_hh_mm_ss_ff (take i tstr), parse_offset (drop (Suc i) tstr)) of
                      (Some (hh, mi, ss, us), Some off) \<Rightarrow>
                        map_option
                          (\<lambda>t. Aware t (if tstr ! i = CHR ''-'' then - off else off))
                          (make_datetime y m d hh mi ss us)
                    | _ \<Rightarrow> None))
        | _ \<Rightarrow> None)"

text \<open>
  \<open>get_last_cleanup_time\<close>: the first field of the last line of the log; \<open>None\<close> when
  there is no log, no line, a blank last line, or a field that does not parse.
\<close>

definition get_last_cleanup_time :: "filesystem \<Rightarrow> iso_datetime option" where
  "get_last_cleanup_time fs =
     (case cleanup_log fs of
        None \<Rightarrow> None
      | Some content \<Rightarrow>
          (let lines = readlines content in
           if lines = [] then None
           else
             (let last_line = strip (last lines) in
              if last_line = [] then None
              else
                (let timestamp_str = split_first last_line '' - ''
                 in fromisoformat timestamp_str))))"

text \<open>
  \<open>schedule_cleanup\<close>. Subtracting an aware datetime from the naive \<^verbatim>\<open>now\<close>
  raises \<^verbatim>\<open>TypeError\<close>, which the function's handler turns into \<open>Failed\<close>.
  \<open>total_seconds()\<close> is exact at these magnitudes, so the comparison with 86400 is one
  of microsecond counts.
\<close>

datatype schedule_result =
    Performed cleanup_result
  | NotNeeded (last_cleanup_iso: string) (next_cleanup_in_seconds: int)
  | Failed

definition schedule_cleanup ::
  "os_env \<Rightarrow> file_manager \<Rightarrow> datetime \<Rightarrow> filesystem \<Rightarrow> bool \<Rightarrow>
     filesystem \<times> schedule_result" where
  "schedule_cleanup env fm now fs force =
     (let last_cleanup = get_last_cleanup_time fs in
      if force then
        (case cleanup_old_files env fm now fs False of (fs1, r) \<Rightarrow> (fs1, Performed r))
      else
        case last_cleanup of
          None \<Rightarrow>
            (case cleanup_old_files env fm now fs False of (fs1, r) \<Rightarrow> (fs1, Performed r))
        | Some (Aware t off) \<Rightarrow> (fs, Failed)
        | Some (Naive t) \<Rightarrow>
            (if 86400 * us_per_second < now - t then
               (case cleanup_old_files env fm now fs False of (fs1, r) \<Rightarrow> (fs1, Performed r))
             else
               (let time_until_next = 86400 * us_per_second - (now - t)
                in (fs, NotNeeded (isoformat t) (time_until_next div us_per_second)))))"

section \<open>Admission\<close>

text \<open>
  The rate limiter. Time is \<^verbatim>\<open>time.time()\<close>, a number of seconds, read once per
  call; the two \<^verbatim>\<open>defaultdict(deque)\<close> are maps from the client identifier to
  the list of its timestamps, oldest first. The identifier itself (address and user
  agent hash) is an input.
\<close>

record rate_limiter =
  requests_per_minute :: int
  requests_per_hour :: int
  minute_requests :: "string \<rightharpoonup> real list"
  hour_requests :: "string \<rightharpoonup> real list"
  last_cleanup :: real
  cleanup_interval :: real

definition new_rate_limiter :: "int \<Rightarrow> int \<Rightarrow> real \<Rightarrow> rate_limiter" where
  "new_rate_limiter per_minute per_hour t =
     \<lparr>requests_per_minute = per_minute, requests_per_hour = per_hour,
      minute_requests = Map.empty, hour_requests = Map.empty,
      last_cleanup = t, cleanup_interval = 300\<rparr>"

text \<open>\<^verbatim>\<open>while requests and requests[0] < cutoff: requests.popleft()\<close>\<close>

definition expire :: "real \<Rightarrow> real list \<Rightarrow> real list" where
  "expire cutoff requests = dropWhile (\<lambda>x. x < cutoff) requests"

definition sweep_clients :: "real \<Rightarrow> (string \<rightharpoonup> real list) \<Rightarrow> (string \<rightharpoonup> real list)" where
  "sweep_clients cutoff table =
     (\<lambda>client_id.
        case table client_id of
          None \<Rightarrow> None
        | Some requests \<Rightarrow>
            (if expire cutoff requests = [] then None
             else Some (expire cutoff requests)))"

definition cleanup_old_requests :: "rate_limiter \<Rightarrow> real \<Rightarrow> rate_limiter" where
  "cleanup_old_requests rl current_time =
     (if current_time - last_cleanup rl < cleanup_interval rl then rl
      else
        (let minute_cutoff = current_time - 60;
             hour_cutoff = current_time - 3600
         in rl\<lparr>minute_requests := sweep_clients minute_cutoff (minute_requests rl),
               hour_requests := sweep_clients hour_cutoff (hour_requests rl),
               last_cleanup := current_time\<rparr>))"

text \<open>Reading a \<^verbatim>\<open>defaultdict(deque)\<close>: a missing key reads as the empty deque (and is created).\<close>

definition window :: "(string \<rightharpoonup> real list) \<Rightarrow> string \<Rightarrow> real list" where
  "window table client_id = (case table client_id of None \<Rightarrow> [] | Some requests \<Rightarrow> requests)"

definition is_allowed ::
  "rate_limiter \<Rightarrow> string \<Rightarrow> real \<Rightarrow> rate_limiter \<times> bool \<times> string option" where
  "is_allowed rl client_id current_time =
     (let rl = cleanup_old_requests rl current_time;
          minute_cutoff = current_time - 60;
          minute = expire minute_cutoff (window (minute_requests rl) client_id);
          rl = rl\<lparr>minute_requests := (minute_requests rl)(client_id \<mapsto> minute)\<rparr>
      in if requests_per_minute rl \<le> int (length minute) then
           (rl, False, Some ''Too many requests per minute'')
         else
           (let hour_cutoff = current_time - 3600;
                hour = expire hour_cutoff (window (hour_requests rl) client_id);
                rl = rl\<lparr>hour_requests := (hour_requests rl)(client_id \<mapsto> hour)\<rparr>
            in if requests_per_hour rl \<le> int (length hour) then
                 (rl, False, Some ''Too many requests per hour'')
               else
                 (rl\<lparr>minute_requests := (minute_requests rl)(client_id \<mapsto> minute @ [current_time]),
                      hour_requests := (hour_requests rl)(client_id \<mapsto> hour @ [current_time])\<rparr>,
                  True, None)))"

text \<open>A client issuing requests at the given times, one after the other.\<close>

fun requests_at ::
  "rate_limiter \<Rightarrow> string \<Rightarrow> real list \<Rightarrow> rate_limiter \<times> (bool \<times> string option) list" where
  "requests_at rl client_id [] = (rl, [])"
| "requests_at rl client_id (t # ts) =
     (case is_allowed rl client_id t of
        (rl1, answer) \<Rightarrow>
          (case requests_at rl1 client_id ts of
             (rl2, answers) \<Rightarrow> (rl2, answer # answers)))"

section \<open>Verified properties\<close>

subsection \<open>File names and lookup\<close>

lemma validate_filename_examples:
  "\<not> validate_filename ''../../etc/passwd'' \<and> \<not> validate_filename ''a/b.png''
   \<and> \<not> validate_filename ''x.exe''
   \<and> validate_filename ''20240101_120000_000_abcdef12.png''"
  by code_simp

text \<open>The lookup used for file details does validate first, whatever the directory tree holds.\<close>

lemma get_file_info_validates:
  "\<not> validate_filename filename \<Longrightarrow> get_file_info fm fs now filename = None"
  by (simp add: get_file_info_def)

text \<open>
  C1. The claim is that \<open>get_file_path\<close> validates the name before it looks at the
  file system and answers not-found for every name that fails validation. The code of
  \<open>get_file_path\<close> never calls \<open>validate_filename\<close>: with a file \<^verbatim>\<open>x.exe\<close> in a
  bucket of the last seven days, the name fails validation and the lookup still
  returns its path.
\<close>

theorem get_file_path_unvalidated:
  "\<not> validate_filename ''x.exe'' \<and>
   get_file_path
     \<lparr>root = [(''2024-01-01'', Directory [(''x.exe'', File 5 0)])], cleanup_log = None\<rparr>
     (mk_datetime 2024 1 3 10 0 0 0) ''x.exe'' None
   = Some [''2024-01-01'', ''x.exe'']"
  by code_simp

subsection \<open>Listing and statistics\<close>

lemma list_dir_valid:
  "fi \<in> set (list_dir fm d es) \<Longrightarrow> validate_filename (fi_filename fi)"
  by (auto simp: list_dir_def split: dirent.splits if_splits)

lemma set_slice_to: "set (slice_to n xs) \<subseteq> set xs"
  by (auto simp: slice_to_def dest: in_set_takeD)

lemma collect_files_valid:
  "collect_files fm fs date = Some files \<Longrightarrow> fi \<in> set files \<Longrightarrow>
   validate_filename (fi_filename fi)"
  by (auto simp: collect_files_def split: option.splits node.splits if_splits
           dest: list_dir_valid)

lemma list_files_subset:
  "collect_files fm fs date = Some files \<Longrightarrow>
   set (list_files fm fs date limit) \<subseteq> set files"
  using set_slice_to[of _ "sort_newest_first files"]
  by (cases limit) (auto simp: list_files_def sort_newest_first_def Let_def split: if_splits)

lemma list_files_valid:
  "fi \<in> set (list_files fm fs date limit) \<Longrightarrow> validate_filename (fi_filename fi)"
proof (cases "collect_files fm fs date")
  case None
  assume "fi \<in> set (list_files fm fs date limit)"
  with None show ?thesis by (simp add: list_files_def)
next
  case (Some files)
  assume "fi \<in> set (list_files fm fs date limit)"
  with Some list_files_subset have "fi \<in> set files" by blast
  with Some show ?thesis by (rule collect_files_valid)
qed

lemma file_sizes_append: "file_sizes (es @ [(n, File sz ct)]) = file_sizes es @ [sz]"
  by (simp add: file_sizes_def)

lemma stats_count_every_file:
  assumes "d \<noteq> ''__pycache__''"
  shows "total_files (get_storage_stats
           (fs\<lparr>root := pre @ (d, Directory (es @ [(n, File sz ct)])) # post\<rparr>))
         = total_files (get_storage_stats (fs\<lparr>root := pre @ (d, Directory es) # post\<rparr>)) + 1"
    and "total_size (get_storage_stats
           (fs\<lparr>root := pre @ (d, Directory (es @ [(n, File sz ct)])) # post\<rparr>))
         = total_size (get_storage_stats (fs\<lparr>root := pre @ (d, Directory es) # post\<rparr>)) + sz"
  using assms
  by (simp_all add: get_storage_stats_def scanned_dirs_def file_sizes_append Let_def)

text \<open>
  C5, as claimed: every enumeration validates, so a file whose name fails validation
  adds to no listing, no file count and no byte total. \<open>get_storage_stats\<close> does not
  validate: here a bucket holds the single file \<^verbatim>\<open>x.exe\<close> of five bytes, and the
  statistics count one file and five bytes.
\<close>

theorem stats_count_invalid_name:
  "\<not> validate_filename ''x.exe'' \<and>
   total_files (get_storage_stats
     \<lparr>root = [(''2024-01-01'', Directory [(''x.exe'', File 5 0)])], cleanup_log = None\<rparr>) = 1 \<and>
   total_size (get_storage_stats
     \<lparr>root = [(''2024-01-01'', Directory [(''x.exe'', File 5 0)])], cleanup_log = None\<rparr>) = 5"
  by code_simp

text \<open>
  C5, amended: \<open>list_files\<close> validates the name of every file before it lists it, so
  every listed name passes \<open>validate_filename\<close>, with or without a date and whatever
  the limit. \<open>get_storage_stats\<close> counts by kind, not by name: a regular file added to
  a directory other than \<^verbatim>\<open>__pycache__\<close> adds one to the file count and its size to the
  byte total, whatever its name.
\<close>

theorem enumeration_validation:
  "(fi \<in> set (list_files fm fs date limit) \<longrightarrow> validate_filename (fi_filename fi)) \<and>
   (d \<noteq> ''__pycache__'' \<longrightarrow>
      total_files (get_storage_stats
         (fs\<lparr>root := pre @ (d, Directory (es @ [(n, File sz ct)])) # post\<rparr>))
       = total_files (get_storage_stats (fs\<lparr>root := pre @ (d, Directory es) # post\<rparr>)) + 1 \<and>
      total_size (get_storage_stats
         (fs\<lparr>root := pre @ (d, Directory (es @ [(n, File sz ct)])) # post\<rparr>))
       = total_size (get_storage_stats (fs\<lparr>root := pre @ (d, Directory es) # post\<rparr>)) + sz)"
proof (intro conjI impI)
  assume "fi \<in> set (list_files fm fs date limit)"
  then show "validate_filename (fi_filename fi)" by (rule list_files_valid)
next
  assume "d \<noteq> ''__pycache__''"
  then show "total_files (get_storage_stats
         (fs\<lparr>root := pre @ (d, Directory (es @ [(n, File sz ct)])) # post\<rparr>))
       = total_files (get_storage_stats (fs\<lparr>root := pre @ (d, Directory es) # post\<rparr>)) + 1"
    by (rule stats_count_every_file(1))
next
  assume "d \<noteq> ''__pycache__''"
  then show "total_size (get_storage_stats
         (fs\<lparr>root := pre @ (d, Directory (es @ [(n, File sz ct)])) # post\<rparr>))
       = total_size (get_storage_stats (fs\<lparr>root := pre @ (d, Directory es) # post\<rparr>)) + sz"
    by (rule stats_count_every_file(2))
qed

theorem enumeration_validation_witness:
  "\<lparr>fi_filename = ''a.png'', fi_filepath = ''generated_images/2024-01-01/a.png'',
     fi_size = 7, fi_created = 1, fi_date = ''2024-01-01''\<rparr>
     \<in> set (list_files \<lparr>base_directory = ''generated_images'', max_age_days = 30\<rparr>
          \<lparr>root = [(''2024-01-01'', Directory [(''a.png'', File 7 1), (''x.exe'', File 5 0)])],
            cleanup_log = None\<rparr> None None) \<and>
   validate_filename (fi_filename \<lparr>fi_filename = ''a.png'',
     fi_filepath = ''generated_images/2024-01-01/a.png'',
     fi_size = 7, fi_created = 1, fi_date = ''2024-01-01''\<rparr>) \<and>
   ''2024-01-01'' \<noteq> ''__pycache__'' \<and>
   total_files (get_storage_stats
     (\<lparr>root = [(''2024-01-01'', Directory [(''a.png'', File 7 1), (''x.exe'', File 5 0)])],
       cleanup_log = None\<rparr>
      \<lparr>root := [] @ (''2024-01-01'', Directory ([(''a.png'', File 7 1)] @ [(''x.exe'', File 5 0)])) # []\<rparr>))
   = total_files (get_storage_stats
     (\<lparr>root = [(''2024-01-01'', Directory [(''a.png'', File 7 1), (''x.exe'', File 5 0)])],
       cleanup_log = None\<rparr>
      \<lparr>root := [] @ (''2024-01-01'', Directory [(''a.png'', File 7 1)]) # []\<rparr>)) + 1"
proof -
  let ?fi = "\<lparr>fi_filename = ''a.png'', fi_filepath = ''generated_images/2024-01-01/a.png'',
     fi_size = 7, fi_created = 1, fi_date = ''2024-01-01''\<rparr>"
  let ?fm = "\<lparr>base_directory = ''generated_images'', max_age_days = 30\<rparr>"
  let ?fs = "\<lparr>root = [(''2024-01-01'', Directory [(''a.png'', File 7 1), (''x.exe'', File 5 0)])],
            cleanup_log = None\<rparr>"
  have m: "?fi \<in> set (list_files ?fm ?fs None None)"
    by code_simp
  have d: "''2024-01-01'' \<noteq> ''__pycache__''" by simp
  note t = enumeration_validation[of ?fi ?fm ?fs None None "''2024-01-01''" "[]"
      "[(''a.png'', File 7 1)]" "''x.exe''" 5 0 "[]"]
  note v = mp[OF conjunct1[OF t] m]
  note c = conjunct1[OF mp[OF conjunct2[OF t] d]]
  from m v d c show ?thesis by (intro conjI)
qed

subsection \<open>Saving\<close>

lemma map_of_update_dir:
  "map_of rt d = Some (Directory es) \<Longrightarrow>
   map_of (map (\<lambda>(name, nd).
              if name = d then
                (case nd of
                   Directory es \<Rightarrow> (name, Directory (AList.update f e es))
                 | Plain \<Rightarrow> (name, nd))
              else (name, nd)) rt) d
     = Some (Directory (AList.update f e es))"
  by (induction rt) (auto split: if_splits)

lemma stat_write_entry:
  "map_of (root fs) d = Some (Directory es) \<Longrightarrow>
   stat_path (write_entry fs d f e) [d, f] = Some e"
  by (simp add: stat_path_def write_entry_def map_of_update_dir update_Some_unfold)

lemma ensure_storage_directory_dir:
  "ensure_storage_directory fault fs d = Inr fs1 \<Longrightarrow>
   \<exists>es. map_of (root fs1) d = Some (Directory es)"
  by (auto simp: ensure_storage_directory_def map_add_def
           split: if_splits option.splits node.splits)

text \<open>
  What \<open>save_file\<close> guarantees for any data: a record comes back only when no step
  failed, and its size is the one the \<^verbatim>\<open>stat()\<close> after the write reports.
\<close>

lemma save_file_record:
  assumes "save_file fm fault now fs file_data filename date = (fs', Inr info)"
  shows "fault = NoFault \<and> sv_filename info = filename
       \<and> stat_path fs' [sv_date info, filename] = Some (File (sv_size info) now)
       \<and> sv_size info = length file_data"
proof -
  define d where "d = hd (get_storage_path now date)"
  from assms obtain fs1 where e: "ensure_storage_directory fault fs d = Inr fs1"
    by (auto simp: save_file_def d_def Let_def split: sum.splits)
  then obtain es where m: "map_of (root fs1) d = Some (Directory es)"
    using ensure_storage_directory_dir by blast
  have st: "stat_path (write_entry fs1 d filename (File (length file_data) now)) [d, filename]
            = Some (File (length file_data) now)"
    using m by (rule stat_write_entry)
  from assms e have nf: "fault = NoFault"
    by (cases fault)
       (auto simp: save_file_def ensure_storage_directory_def d_def[symmetric] Let_def
             split: if_splits dirent.splits option.splits)
  from assms e st nf show ?thesis
    by (auto simp: save_file_def d_def[symmetric] Let_def split: if_splits)
qed

text \<open>
  \<open>save_file\<close> itself does not look at the size: called directly with empty data it
  returns a record of size 0. Its one caller, \<open>save_image\<close>, refuses empty data
  before the call.
\<close>

lemma save_file_empty_data:
  "snd (save_file \<lparr>base_directory = ''generated_images'', max_age_days = 30\<rparr> NoFault
      (mk_datetime 2024 1 3 10 0 0 0) \<lparr>root = [], cleanup_log = None\<rparr> [] ''a.png'' None)
   = Inr \<lparr>sv_filename = ''a.png'', sv_filepath = ''generated_images/2024-01-03/a.png'',
          sv_relative_path = ''2024-01-03/a.png'', sv_size = 0, sv_date = ''2024-01-03''\<rparr>"
  by code_simp

text \<open>
  C3. \<open>save_file\<close> hands a record to its caller only for a fully verified write: for
  the non-empty data the caller passes, a record means that no step failed (creating
  the bucket, opening, writing, the \<^verbatim>\<open>stat()\<close> after the write), its size is the one
  that \<^verbatim>\<open>stat()\<close> reports for the written file, which is the number of bytes written,
  and it is not zero. A write that fails partway ends in \<^verbatim>\<open>RuntimeError\<close>, never
  in a record.
\<close>

theorem save_file_verified:
  assumes "save_file fm fault now fs file_data filename date = (fs', Inr info)"
    and "file_data \<noteq> []"
  shows "fault = NoFault
       \<and> stat_path fs' [sv_date info, filename] = Some (File (sv_size info) now)
       \<and> sv_size info = length file_data
       \<and> 0 < sv_size info"
  using save_file_record[OF assms(1)] assms(2) by simp

theorem save_file_verified_witness:
  "save_file \<lparr>base_directory = ''generated_images'', max_age_days = 30\<rparr> NoFault
      (mk_datetime 2024 1 3 10 0 0 0) \<lparr>root = [], cleanup_log = None\<rparr> ''abc'' ''a.png'' None
   = (\<lparr>root = [(''2024-01-03'', Directory [(''a.png'', File 3 (mk_datetime 2024 1 3 10 0 0 0))])],
       cleanup_log = None\<rparr>,
      Inr \<lparr>sv_filename = ''a.png'', sv_filepath = ''generated_images/2024-01-03/a.png'',
           sv_relative_path = ''2024-01-03/a.png'', sv_size = 3, sv_date = ''2024-01-03''\<rparr>) \<and>
   ''abc'' \<noteq> [] \<and>
   stat_path \<lparr>root = [(''2024-01-03'', Directory [(''a.png'', File 3 (mk_datetime 2024 1 3 10 0 0 0))])],
       cleanup_log = None\<rparr> [''2024-01-03'', ''a.png'']
   = Some (File 3 (mk_datetime 2024 1 3 10 0 0 0)) \<and>
   (0::nat) < 3"
proof -
  have h: "save_file \<lparr>base_directory = ''generated_images'', max_age_days = 30\<rparr> NoFault
      (mk_datetime 2024 1 3 10 0 0 0) \<lparr>root = [], cleanup_log = None\<rparr> ''abc'' ''a.png'' None
   = (\<lparr>root = [(''2024-01-03'', Directory [(''a.png'', File 3 (mk_datetime 2024 1 3 10 0 0 0))])],
       cleanup_log = None\<rparr>,
      Inr \<lparr>sv_filename = ''a.png'', sv_filepath = ''generated_images/2024-01-03/a.png'',
           sv_relative_path = ''2024-01-03/a.png'', sv_size = 3, sv_date = ''2024-01-03''\<rparr>)"
    by code_simp
  have n: "''abc'' \<noteq> []" by simp
  note t = save_file_verified[OF h n]
  have c: "stat_path \<lparr>root = [(''2024-01-03'', Directory [(''a.png'', File 3 (mk_datetime 2024 1 3 10 0 0 0))])],
       cleanup_log = None\<rparr> [''2024-01-03'', ''a.png'']
   = Some (File 3 (mk_datetime 2024 1 3 10 0 0 0))"
    using conjunct1[OF conjunct2[OF t]] by (simp only: save_info.simps)
  have p: "(0::nat) < 3"
    using conjunct2[OF conjunct2[OF conjunct2[OF t]]] by (simp only: save_info.simps)
  from h n c p show ?thesis by (intro conjI)
qed

text \<open>
  The caller's guard discharges the hypothesis: every record \<open>save_image\<close> returns
  comes from a call of \<open>save_file\<close> with non-empty data, so its size is not zero.
\<close>

lemma save_image_guard:
  assumes "save_image fm fault now fs image_data filename = (fs', Inr im)"
  shows "image_data \<noteq> []
       \<and> (\<exists>info. save_file fm fault now fs image_data filename None = (fs', Inr info)
                 \<and> im_size im = sv_size info \<and> im_filename im = sv_filename info)"
  using assms
  by (auto simp: save_image_def split: if_splits prod.splits sum.splits)

lemma save_image_size:
  assumes "save_image fm fault now fs image_data filename = (fs', Inr im)"
  shows "0 < im_size im \<and> im_size im = length image_data \<and> fault = NoFault"
proof -
  from save_image_guard[OF assms] obtain info where
    ne: "image_data \<noteq> []" and
    s: "save_file fm fault now fs image_data filename None = (fs', Inr info)" and
    e: "im_size im = sv_size info"
    by blast
  from save_file_record[OF s] e ne show ?thesis by simp
qed

subsection \<open>The sweep\<close>

lemma files_to_delete_root:
  "root fs' = root fs \<Longrightarrow> files_to_delete fm now fs' = files_to_delete fm now fs"
  by (simp add: files_to_delete_def)

lemma root_log_cleanup_results: "root (log_cleanup_results env now fs r) = root fs"
  by (simp add: log_cleanup_results_def)

lemma cleanup_dry_run:
  "cleanup_old_files env fm now fs True =
     (log_cleanup_results env now fs (snd (cleanup_old_files env fm now fs True)),
      \<lparr>cr_dry_run = True,
       cr_cutoff_date = strftime_ymd (now - timedelta_days (max_age_days fm)),
       cr_max_age_days = max_age_days fm,
       files_found = length (files_to_delete fm now fs),
       files_deleted = 0, directories_deleted = 0, size_freed_bytes = 0,
       potential_size_to_free_bytes = sum_list (map cd_size (files_to_delete fm now fs))\<rparr>)"
  by (simp add: cleanup_old_files_def Let_def)

lemma cleanup_found:
  "files_found (snd (cleanup_old_files env fm now fs dry_run)) = length (files_to_delete fm now fs)"
  "potential_size_to_free_bytes (snd (cleanup_old_files env fm now fs dry_run))
     = sum_list (map cd_size (files_to_delete fm now fs))"
  by (simp_all add: cleanup_old_files_def Let_def split: prod.splits)

text \<open>
  C6. A sweep with \<open>dry_run\<close> set leaves the directory tree as it was (no file
  deleted, no directory removed; only the log grows) and reports no deletion. The number
  of files found and the bytes that could be freed are those a real sweep reports when
  it runs next on the tree the dry run left, at the same clock reading and with the
  same retention period, whatever the operating system then permits.
\<close>

theorem dry_run_sweep:
  "root (fst (cleanup_old_files env fm now fs True)) = root fs \<and>
   files_deleted (snd (cleanup_old_files env fm now fs True)) = 0 \<and>
   directories_deleted (snd (cleanup_old_files env fm now fs True)) = 0 \<and>
   files_found (snd (cleanup_old_files env fm now fs True))
     = files_found (snd (cleanup_old_files env' fm now
         (fst (cleanup_old_files env fm now fs True)) False)) \<and>
   potential_size_to_free_bytes (snd (cleanup_old_files env fm now fs True))
     = potential_size_to_free_bytes (snd (cleanup_old_files env' fm now
         (fst (cleanup_old_files env fm now fs True)) False))"
proof -
  have r: "root (fst (cleanup_old_files env fm now fs True)) = root fs"
    by (subst cleanup_dry_run) (simp add: root_log_cleanup_results)
  have d: "files_deleted (snd (cleanup_old_files env fm now fs True)) = 0"
          "directories_deleted (snd (cleanup_old_files env fm now fs True)) = 0"
    by (subst cleanup_dry_run, simp)+
  from r d show ?thesis
    by (simp add: cleanup_found files_to_delete_root[OF r])
qed

lemma dir_candidates_date:
  "c \<in> set (dir_candidates now name dd es) \<Longrightarrow> cd_date c = name \<and> cd_filepath c = [name, cd_filename c]"
  by (auto simp: dir_candidates_def split: dirent.splits)

lemma files_to_delete_date:
  "c \<in> set (files_to_delete fm now fs) \<Longrightarrow>
   strptime_ymd (cd_date c) \<noteq> None \<and> cd_filepath c = [cd_date c, cd_filename c]"
  by (auto simp: files_to_delete_def Let_def split: node.splits if_splits option.splits
           dest!: dir_candidates_date) metis

lemma remove_entry_other:
  "(d, nd) \<in> set (root fs) \<Longrightarrow> d \<noteq> d' \<Longrightarrow> (d, nd) \<in> set (root (remove_entry fs d' f))"
  by (force simp: remove_entry_def)

lemma delete_files_other:
  "(d, nd) \<in> set (root fs) \<Longrightarrow> \<forall>c \<in> set cs. cd_date c \<noteq> d \<Longrightarrow>
   (d, nd) \<in> set (root (fst (delete_files env cs fs deleted)))"
proof (induction cs arbitrary: fs deleted)
  case Nil
  then show ?case by simp
next
  case (Cons c cs)
  then show ?case by (auto simp: Let_def intro!: Cons.IH remove_entry_other)
qed

lemma prune_dirs_nonempty:
  "(d, Directory es) \<in> set rt \<Longrightarrow> es \<noteq> [] \<Longrightarrow> (d, Directory es) \<in> set (fst (prune_dirs env rt))"
  by (induction rt) (auto split: prod.splits node.splits)

lemma cleanup_root_cases:
  "root (fst (cleanup_old_files env fm now fs dry_run)) = root fs \<or>
   root (fst (cleanup_old_files env fm now fs dry_run))
     = fst (prune_dirs env (root (fst (delete_files env (files_to_delete fm now fs) fs []))))"
  by (auto simp: cleanup_old_files_def Let_def root_log_cleanup_results split: prod.splits)

text \<open>
  C2, as claimed: a directory whose name is not a date is never deleted by the sweep.
  The pruning loop removes every empty directory other than \<^verbatim>\<open>__pycache__\<close>,
  date-named or not: here the sweep deletes the one old file and then removes the empty
  directory \<^verbatim>\<open>thumbs\<close> as well.
\<close>

theorem empty_non_date_directory_removed:
  "strptime_ymd ''thumbs'' = None \<and>
   map_of (root \<lparr>root = [(''2020-01-01'', Directory [(''old.png'', File 7 1)]), (''thumbs'', Directory [])],
                 cleanup_log = None\<rparr>) ''thumbs'' = Some (Directory []) \<and>
   map_of (root (fst (cleanup_old_files
      \<lparr>unlink_ok = (\<lambda>p. True), rmdir_ok = (\<lambda>n. True), log_ok = True\<rparr>
      \<lparr>base_directory = ''generated_images'', max_age_days = 30\<rparr>
      (mk_datetime 2024 1 3 10 0 0 0)
      \<lparr>root = [(''2020-01-01'', Directory [(''old.png'', File 7 1)]), (''thumbs'', Directory [])],
        cleanup_log = None\<rparr> False))) ''thumbs'' = None"
  by code_simp

lemma cleanup_root_unchanged:
  "dry_run \<or> files_to_delete fm now fs = [] \<Longrightarrow>
   root (fst (cleanup_old_files env fm now fs dry_run)) = root fs"
  by (auto simp: cleanup_old_files_def Let_def root_log_cleanup_results)

lemma cleanup_root_real:
  "\<not> dry_run \<Longrightarrow> files_to_delete fm now fs \<noteq> [] \<Longrightarrow>
   root (fst (cleanup_old_files env fm now fs dry_run))
     = fst (prune_dirs env (root (fst (delete_files env (files_to_delete fm now fs) fs []))))"
  by (auto simp: cleanup_old_files_def Let_def root_log_cleanup_results split: prod.splits)

lemma prune_dirs_kept:
  "(d, Directory es) \<in> set rt \<Longrightarrow>
   es \<noteq> [] \<or> \<not> rmdir_ok env d \<or> d = ''__pycache__'' \<Longrightarrow>
   (d, Directory es) \<in> set (fst (prune_dirs env rt))"
  by (induction rt) (auto split: prod.splits node.splits)

lemma prune_dirs_removed:
  "d \<noteq> ''__pycache__'' \<Longrightarrow> rmdir_ok env d \<Longrightarrow>
   (d, Directory []) \<notin> set (fst (prune_dirs env rt))"
  by (induction rt) (auto split: prod.splits node.splits if_splits)

text \<open>
  C2, amended: for a directory of the base directory whose name does not parse as a
  date, no file of it is ever a deletion candidate, and the sweep never deletes it,
  leaving it with its content unchanged, with one exception. The exception is the
  pruning of a real sweep: when the sweep is not a dry run and has found at least one
  candidate, an empty directory other than \<^verbatim>\<open>__pycache__\<close> that the operating system
  lets be removed is removed, date-named or not. In every other case (the directory
  holds an entry, the sweep is a dry run, the sweep found nothing, the removal is
  refused, the name is \<^verbatim>\<open>__pycache__\<close>) the directory stays.
\<close>

theorem non_date_directory_sweep:
  assumes "strptime_ymd d = None"
  shows "(\<forall>c \<in> set (files_to_delete fm now fs). cd_date c \<noteq> d \<and> hd (cd_filepath c) \<noteq> d) \<and>
         ((d, Directory es) \<in> set (root fs) \<and>
          (es \<noteq> [] \<or> dry_run \<or> files_to_delete fm now fs = [] \<or> \<not> rmdir_ok env d
             \<or> d = ''__pycache__'') \<longrightarrow>
            (d, Directory es) \<in> set (root (fst (cleanup_old_files env fm now fs dry_run)))) \<and>
         (\<not> dry_run \<and> files_to_delete fm now fs \<noteq> [] \<and> rmdir_ok env d \<and> d \<noteq> ''__pycache__'' \<longrightarrow>
            (d, Directory []) \<notin> set (root (fst (cleanup_old_files env fm now fs dry_run))))"
proof (intro conjI ballI impI)
  fix c assume c: "c \<in> set (files_to_delete fm now fs)"
  from files_to_delete_date[OF c] assms show "cd_date c \<noteq> d" by auto
  from files_to_delete_date[OF c] assms show "hd (cd_filepath c) \<noteq> d" by auto
next
  assume a: "(d, Directory es) \<in> set (root fs) \<and>
          (es \<noteq> [] \<or> dry_run \<or> files_to_delete fm now fs = [] \<or> \<not> rmdir_ok env d
             \<or> d = ''__pycache__'')"
  show "(d, Directory es) \<in> set (root (fst (cleanup_old_files env fm now fs dry_run)))"
  proof (cases "dry_run \<or> files_to_delete fm now fs = []")
    case True
    with a show ?thesis by (simp add: cleanup_root_unchanged)
  next
    case False
    have n: "\<forall>c \<in> set (files_to_delete fm now fs). cd_date c \<noteq> d"
      using files_to_delete_date assms by fastforce
    from a n have "(d, Directory es)
        \<in> set (root (fst (delete_files env (files_to_delete fm now fs) fs [])))"
      by (intro delete_files_other) auto
    moreover from a False have "es \<noteq> [] \<or> \<not> rmdir_ok env d \<or> d = ''__pycache__''" by blast
    ultimately have "(d, Directory es) \<in> set (fst (prune_dirs env
        (root (fst (delete_files env (files_to_delete fm now fs) fs [])))))"
      by (rule prune_dirs_kept)
    with False show ?thesis by (simp add: cleanup_root_real)
  qed
next
  assume a: "\<not> dry_run \<and> files_to_delete fm now fs \<noteq> [] \<and> rmdir_ok env d \<and> d \<noteq> ''__pycache__''"
  then have "(d, Directory []) \<notin> set (fst (prune_dirs env
        (root (fst (delete_files env (files_to_delete fm now fs) fs [])))))"
    by (intro prune_dirs_removed) auto
  with a show "(d, Directory []) \<notin> set (root (fst (cleanup_old_files env fm now fs dry_run)))"
    by (simp add: cleanup_root_real)
qed

theorem non_date_directory_sweep_witness:
  "strptime_ymd ''thumbs'' = None \<and>
   ((''thumbs'', Directory [(''t.png'', File 1 0)])
     \<in> set (root \<lparr>root = [(''2020-01-01'', Directory [(''old.png'', File 7 1)]),
                           (''thumbs'', Directory [(''t.png'', File 1 0)])],
                   cleanup_log = None\<rparr>) \<and>
    [(''t.png'', File 1 0)] \<noteq> []) \<and>
   (''thumbs'', Directory [(''t.png'', File 1 0)])
     \<in> set (root (fst (cleanup_old_files
          \<lparr>unlink_ok = (\<lambda>p. True), rmdir_ok = (\<lambda>n. True), log_ok = True\<rparr>
          \<lparr>base_directory = ''generated_images'', max_age_days = 30\<rparr>
          (mk_datetime 2024 1 3 10 0 0 0)
          \<lparr>root = [(''2020-01-01'', Directory [(''old.png'', File 7 1)]),
                   (''thumbs'', Directory [(''t.png'', File 1 0)])],
            cleanup_log = None\<rparr> False))) \<and>
   files_to_delete \<lparr>base_directory = ''generated_images'', max_age_days = 30\<rparr>
          (mk_datetime 2024 1 3 10 0 0 0)
          \<lparr>root = [(''2020-01-01'', Directory [(''old.png'', File 7 1)]),
                   (''thumbs'', Directory [(''t.png'', File 1 0)])],
            cleanup_log = None\<rparr> \<noteq> [] \<and>
   (''thumbs'', Directory [])
     \<notin> set (root (fst (cleanup_old_files
          \<lparr>unlink_ok = (\<lambda>p. True), rmdir_ok = (\<lambda>n. True), log_ok = True\<rparr>
          \<lparr>base_directory = ''generated_images'', max_age_days = 30\<rparr>
          (mk_datetime 2024 1 3 10 0 0 0)
          \<lparr>root = [(''2020-01-01'', Directory [(''old.png'', File 7 1)]),
                   (''thumbs'', Directory [(''t.png'', File 1 0)])],
            cleanup_log = None\<rparr> False)))"
proof -
  let ?env = "\<lparr>unlink_ok = (\<lambda>p. True), rmdir_ok = (\<lambda>n. True), log_ok = True\<rparr>"
  let ?fm = "\<lparr>base_directory = ''generated_images'', max_age_days = 30\<rparr>"
  let ?fs = "\<lparr>root = [(''2020-01-01'', Directory [(''old.png'', File 7 1)]),
                   (''thumbs'', Directory [(''t.png'', File 1 0)])],
            cleanup_log = None\<rparr>"
  have p: "strptime_ymd ''thumbs'' = None" by code_simp
  have m: "(''thumbs'', Directory [(''t.png'', File 1 0)]) \<in> set (root ?fs)
           \<and> [(''t.png'', File 1 0)] \<noteq> []"
    by simp
  have f: "files_to_delete ?fm (mk_datetime 2024 1 3 10 0 0 0) ?fs \<noteq> []" by code_simp
  note t = non_date_directory_sweep[OF p, where fm = ?fm and now = "mk_datetime 2024 1 3 10 0 0 0"
      and fs = ?fs and es = "[(''t.png'', File 1 0)]" and dry_run = False and env = ?env]
  have k: "(''thumbs'', Directory [(''t.png'', File 1 0)])
     \<in> set (root (fst (cleanup_old_files ?env ?fm (mk_datetime 2024 1 3 10 0 0 0) ?fs False)))"
    using conjunct1[OF conjunct2[OF t]] m by blast
  have r: "(''thumbs'', Directory [])
     \<notin> set (root (fst (cleanup_old_files ?env ?fm (mk_datetime 2024 1 3 10 0 0 0) ?fs False)))"
    using conjunct2[OF conjunct2[OF t]] f by simp
  from p conjunct1[OF m] conjunct2[OF m] k f r show ?thesis by (intro conjI)
qed

subsection \<open>Admission\<close>

lemma expire_idem: "expire k (expire k xs) = expire k xs"
  by (simp add: expire_def dropWhile_idem)

lemma length_expire: "length (expire k xs) \<le> length xs"
  by (simp add: expire_def length_dropWhile_le)

lemma expire_keep: "xs = [] \<or> k \<le> hd xs \<Longrightarrow> expire k xs = xs"
  by (cases xs) (auto simp: expire_def)

lemma expire_drop: "xs \<noteq> [] \<Longrightarrow> hd xs < k \<Longrightarrow> length (expire k xs) < length xs"
  by (cases xs) (auto simp: expire_def intro: le_imp_less_Suc length_dropWhile_le)

lemma expire_Nil: "expire k [] = []"
  by (simp add: expire_def)

lemma window_sweep: "window (sweep_clients k m) c = expire k (window m c)"
  by (simp add: window_def sweep_clients_def expire_Nil split: option.splits)

lemma sweep_idem: "sweep_clients k (sweep_clients k m) = sweep_clients k m"
  by (rule ext) (auto simp: sweep_clients_def expire_idem split: option.splits)

lemma window_upd: "window (m(c \<mapsto> q)) c' = (if c' = c then q else window m c')"
  by (simp add: window_def)

lemma cleanup_fields:
  "requests_per_minute (cleanup_old_requests rl t) = requests_per_minute rl"
  "requests_per_hour (cleanup_old_requests rl t) = requests_per_hour rl"
  "cleanup_interval (cleanup_old_requests rl t) = cleanup_interval rl"
  by (simp_all add: cleanup_old_requests_def Let_def)

lemma cleanup_window_minute:
  "window (minute_requests (cleanup_old_requests rl t)) c = window (minute_requests rl) c \<or>
   window (minute_requests (cleanup_old_requests rl t)) c = expire (t - 60) (window (minute_requests rl) c)"
  by (simp add: cleanup_old_requests_def Let_def window_sweep)

lemma cleanup_window_hour:
  "window (hour_requests (cleanup_old_requests rl t)) c = window (hour_requests rl) c \<or>
   window (hour_requests (cleanup_old_requests rl t)) c = expire (t - 3600) (window (hour_requests rl) c)"
  by (simp add: cleanup_old_requests_def Let_def window_sweep)

lemma expire_cleanup_minute:
  "expire (t - 60) (window (minute_requests (cleanup_old_requests rl t)) c)
   = expire (t - 60) (window (minute_requests rl) c)"
  using cleanup_window_minute[of rl t c] by (auto simp: expire_idem)

lemma expire_cleanup_hour:
  "expire (t - 3600) (window (hour_requests (cleanup_old_requests rl t)) c)
   = expire (t - 3600) (window (hour_requests rl) c)"
  using cleanup_window_hour[of rl t c] by (auto simp: expire_idem)


lemma is_allowed_answer:
  "snd (is_allowed rl c t) =
     (if requests_per_minute rl \<le> int (length (expire (t - 60) (window (minute_requests rl) c)))
      then (False, Some ''Too many requests per minute'')
      else if requests_per_hour rl \<le> int (length (expire (t - 3600) (window (hour_requests rl) c)))
      then (False, Some ''Too many requests per hour'')
      else (True, None))"
  by (simp add: is_allowed_def Let_def cleanup_fields expire_cleanup_minute expire_cleanup_hour)

lemma is_allowed_limits:
  "requests_per_minute (fst (is_allowed rl c t)) = requests_per_minute rl"
  "requests_per_hour (fst (is_allowed rl c t)) = requests_per_hour rl"
  by (simp_all add: is_allowed_def Let_def cleanup_fields)

lemma is_allowed_admit_windows:
  assumes "snd (is_allowed rl c t) = (True, None)"
  shows "window (minute_requests (fst (is_allowed rl c t))) c
           = expire (t - 60) (window (minute_requests rl) c) @ [t]"
    and "window (hour_requests (fst (is_allowed rl c t))) c
           = expire (t - 3600) (window (hour_requests rl) c) @ [t]"
  using assms
  by (auto simp: is_allowed_def Let_def cleanup_fields expire_cleanup_minute expire_cleanup_hour
                 window_upd split: if_splits)


lemma requests_at_Cons:
  "requests_at rl c (t # ts) =
     (fst (requests_at (fst (is_allowed rl c t)) c ts),
      snd (is_allowed rl c t) # snd (requests_at (fst (is_allowed rl c t)) c ts))"
  by (simp split: prod.splits)

lemma requests_admitted:
  assumes "window (minute_requests rl) c = w" and "window (hour_requests rl) c = w"
    and "\<forall>t \<in> set ts. t - 60 \<le> hd (w @ ts)"
    and "int (length w + length ts) \<le> requests_per_minute rl"
    and "int (length w + length ts) \<le> requests_per_hour rl"
  shows "snd (requests_at rl c ts) = replicate (length ts) (True, None)
       \<and> window (minute_requests (fst (requests_at rl c ts))) c = w @ ts
       \<and> window (hour_requests (fst (requests_at rl c ts))) c = w @ ts
       \<and> requests_per_minute (fst (requests_at rl c ts)) = requests_per_minute rl
       \<and> requests_per_hour (fst (requests_at rl c ts)) = requests_per_hour rl"
  using assms
proof (induction ts arbitrary: rl w)
  case Nil
  then show ?case by simp
next
  case (Cons t ts)
  have k: "w = [] \<or> t - 60 \<le> hd w" using Cons.prems(3) by (cases w) auto
  then have k2: "w = [] \<or> t - 3600 \<le> hd w" by auto
  have em: "expire (t - 60) (window (minute_requests rl) c) = w"
    using Cons.prems(1) k by (simp add: expire_keep)
  have eh: "expire (t - 3600) (window (hour_requests rl) c) = w"
    using Cons.prems(2) k2 by (simp add: expire_keep)
  have a: "snd (is_allowed rl c t) = (True, None)"
    using Cons.prems(4,5) by (simp add: is_allowed_answer em eh)
  let ?rl = "fst (is_allowed rl c t)"
  have wm: "window (minute_requests ?rl) c = w @ [t]"
    using is_allowed_admit_windows(1)[OF a] em by simp
  have wh: "window (hour_requests ?rl) c = w @ [t]"
    using is_allowed_admit_windows(2)[OF a] eh by simp
  have h3: "\<forall>t' \<in> set ts. t' - 60 \<le> hd ((w @ [t]) @ ts)"
    using Cons.prems(3) by simp
  have h4: "int (length (w @ [t]) + length ts) \<le> requests_per_minute ?rl"
    using Cons.prems(4) by (simp add: is_allowed_limits)
  have h5: "int (length (w @ [t]) + length ts) \<le> requests_per_hour ?rl"
    using Cons.prems(5) by (simp add: is_allowed_limits)
  from Cons.IH[OF wm wh h3 h4 h5] a show ?case
    by (simp add: requests_at_Cons is_allowed_limits del: requests_at.simps)
qed

lemma sweep_upd:
  "expire k q = q \<Longrightarrow> (sweep_clients k (m(c \<mapsto> q)))(c \<mapsto> q) = (sweep_clients k m)(c \<mapsto> q)"
  by (rule ext) (simp add: sweep_clients_def)

lemma upd_window_expire:
  "expire k q = q \<Longrightarrow> (m(c \<mapsto> q))(c \<mapsto> expire k (window (m(c \<mapsto> q)) c)) = m(c \<mapsto> q)"
  by (simp add: window_upd)

lemma denied_fixpoint:
  assumes "is_allowed rl c t = (rl', False, r)"
  shows "is_allowed rl' c t = (rl', False, r)"
  using assms
  by (auto simp: is_allowed_def Let_def cleanup_old_requests_def window_upd window_sweep
                 expire_idem sweep_idem sweep_upd split: if_splits)

lemma denied_windows:
  assumes "is_allowed rl c t = (rl', False, r)"
  shows "(window (minute_requests rl') c' = window (minute_requests rl) c' \<or>
          window (minute_requests rl') c' = expire (t - 60) (window (minute_requests rl) c'))
       \<and> (window (hour_requests rl') c' = window (hour_requests rl) c' \<or>
          window (hour_requests rl') c' = expire (t - 3600) (window (hour_requests rl) c'))"
  using assms
  by (auto simp: is_allowed_def Let_def cleanup_old_requests_def window_upd window_sweep
                 expire_idem split: if_splits)

lemma expire_split:
  "\<exists>gone. xs = gone @ expire k xs \<and> (\<forall>x \<in> set gone. x < k)"
  unfolding expire_def
  by (rule exI[of _ "takeWhile (\<lambda>x. x < k) xs"]) (auto dest: set_takeWhileD)

lemma expire_append_keep:
  "\<forall>x \<in> set ys. k \<le> x \<Longrightarrow> expire k (xs @ ys) = expire k xs @ ys"
proof -
  assume a: "\<forall>x \<in> set ys. k \<le> x"
  then have "dropWhile (\<lambda>x. x < k) ys = ys" by (cases ys) auto
  then show ?thesis by (induction xs) (simp_all add: expire_def)
qed

lemma requests_at_limits:
  "requests_per_minute (fst (requests_at rl c ts)) = requests_per_minute rl \<and>
   requests_per_hour (fst (requests_at rl c ts)) = requests_per_hour rl"
  by (induction ts arbitrary: rl)
     (simp_all add: requests_at_Cons is_allowed_limits del: requests_at.simps, simp)

lemma requests_window_minute:
  assumes "snd (requests_at rl c ts) = replicate (length ts) (True, None)"
    and "window (minute_requests rl) c = u @ p"
    and "\<forall>t \<in> set ts. \<forall>x \<in> set (p @ ts). t - 60 \<le> x"
  shows "\<exists>u'. window (minute_requests (fst (requests_at rl c ts))) c = u' @ p @ ts
             \<and> (ts \<noteq> [] \<longrightarrow> int (length (u' @ p @ ts)) \<le> requests_per_minute rl)"
  using assms
proof (induction ts arbitrary: rl u p)
  case Nil
  then show ?case by simp
next
  case (Cons t ts)
  let ?rl = "fst (is_allowed rl c t)"
  from Cons.prems(1) have a: "snd (is_allowed rl c t) = (True, None)"
    and r: "snd (requests_at ?rl c ts) = replicate (length ts) (True, None)"
    by (simp_all add: requests_at_Cons del: requests_at.simps)
  have pk: "\<forall>x \<in> set p. t - 60 \<le> x" using Cons.prems(3) by simp
  have e: "expire (t - 60) (window (minute_requests rl) c) = expire (t - 60) u @ p"
    using Cons.prems(2) pk by (simp add: expire_append_keep)
  have w: "window (minute_requests ?rl) c = expire (t - 60) u @ (p @ [t])"
    using is_allowed_admit_windows(1)[OF a] e by simp
  from a have lt: "int (length (expire (t - 60) u @ p)) < requests_per_minute rl"
    using e by (simp add: is_allowed_answer split: if_splits)
  have h3: "\<forall>t' \<in> set ts. \<forall>x \<in> set ((p @ [t]) @ ts). t' - 60 \<le> x"
    using Cons.prems(3) by simp
  from Cons.IH[OF r w h3] obtain u' where
    f: "window (minute_requests (fst (requests_at ?rl c ts))) c = u' @ (p @ [t]) @ ts"
    and b: "ts \<noteq> [] \<longrightarrow> int (length (u' @ (p @ [t]) @ ts)) \<le> requests_per_minute ?rl"
    by blast
  show ?case
  proof (cases "ts = []")
    case True
    with w lt show ?thesis
      by (intro exI[of _ "expire (t - 60) u"]) (simp add: split_beta)
  next
    case False
    with f b show ?thesis
      by (intro exI[of _ u']) (simp add: requests_at_Cons is_allowed_limits del: requests_at.simps)
  qed
qed

lemma requests_window_full:
  assumes "snd (requests_at rl c ts) = replicate (length ts) (True, None)"
    and "ts \<noteq> []" and "int (length ts) = requests_per_minute rl"
    and "\<forall>x \<in> set ts. \<forall>y \<in> set ts. x - 60 \<le> y"
  shows "window (minute_requests (fst (requests_at rl c ts))) c = ts"
proof -
  have "window (minute_requests rl) c = window (minute_requests rl) c @ []" by simp
  from requests_window_minute[OF assms(1) this] assms(4) obtain u' where
    f: "window (minute_requests (fst (requests_at rl c ts))) c = u' @ [] @ ts"
    and b: "ts \<noteq> [] \<longrightarrow> int (length (u' @ [] @ ts)) \<le> requests_per_minute rl"
    by auto
  from b assms(2,3) have "u' = []" by simp
  with f show ?thesis by simp
qed

lemma admitted_2_2:
  "snd (requests_at (new_rate_limiter 2 2 0) ''c'' [1, 2]) = [(True, None), (True, None)] \<and>
   window (hour_requests (fst (requests_at (new_rate_limiter 2 2 0) ''c'' [1, 2]))) ''c'' = [1, 2] \<and>
   window (minute_requests (fst (requests_at (new_rate_limiter 2 2 0) ''c'' [1, 2]))) ''c'' = [1, 2]"
  using requests_admitted[of "new_rate_limiter 2 2 0" "''c''" "[]" "[1, 2]"]
  by (simp add: new_rate_limiter_def window_def)

text \<open>
  C4, as claimed: after as many requests as the minute limit within 60 seconds, the same
  request issued 61 seconds after the first is admitted. With both limits at 2 the two
  requests at seconds 1 and 2 are admitted, and the request at second 62 passes the
  minute check and is denied with the per-hour reason.
\<close>

theorem hour_limit_after_minute_window:
  "snd (requests_at (new_rate_limiter 2 2 0) ''c'' [1, 2]) = [(True, None), (True, None)] \<and>
   snd (is_allowed (fst (requests_at (new_rate_limiter 2 2 0) ''c'' [1, 2])) ''c'' (1 + 61))
     = (False, Some ''Too many requests per hour'')"
proof -
  note a = admitted_2_2
  have l: "requests_per_minute (fst (requests_at (new_rate_limiter 2 2 0) ''c'' [1, 2])) = 2"
          "requests_per_hour (fst (requests_at (new_rate_limiter 2 2 0) ''c'' [1, 2])) = 2"
    using requests_at_limits[of "new_rate_limiter 2 2 0" "''c''" "[1, 2]"]
    by (simp_all add: new_rate_limiter_def)
  have "snd (is_allowed (fst (requests_at (new_rate_limiter 2 2 0) ''c'' [1, 2])) ''c'' (1 + 61))
     = (False, Some ''Too many requests per hour'')"
    using a l by (simp add: is_allowed_answer expire_def)
  with a show ?thesis by blast
qed

text \<open>
  C4, amended. Once the timestamps older than 60 seconds are dropped from the front of
  the minute window, a count at or above the per-minute limit denies the call with the
  per-minute reason, whatever the hour window holds: the minute limit is checked first.
  In particular, when a client's requests, as many as the minute limit and all within
  60 seconds of each other, were all admitted, whatever the client's history before:
  one more request no later than 60 seconds after the first is denied with the
  per-minute reason; and the same request 61 seconds after the first passes the minute
  check, so it is admitted exactly when the hour window, without its timestamps older
  than 3600 seconds, holds fewer than the hour limit, and is denied with the per-hour
  reason otherwise.
\<close>

theorem minute_limit_sequence:
  "(requests_per_minute rl \<le> int (length (expire (t - 60) (window (minute_requests rl) c))) \<longrightarrow>
      snd (is_allowed rl c t) = (False, Some ''Too many requests per minute'')) \<and>
   (ts \<noteq> [] \<and> int (length ts) = requests_per_minute rl0
      \<and> (\<forall>x \<in> set ts. \<forall>y \<in> set ts. x - 60 \<le> y)
      \<and> snd (requests_at rl0 c ts) = replicate (length ts) (True, None) \<longrightarrow>
        (t' \<le> hd ts + 60 \<longrightarrow>
           snd (is_allowed (fst (requests_at rl0 c ts)) c t')
             = (False, Some ''Too many requests per minute''))
      \<and> snd (is_allowed (fst (requests_at rl0 c ts)) c (hd ts + 61))
          = (if requests_per_hour rl0
                  \<le> int (length (expire (hd ts + 61 - 3600)
                        (window (hour_requests (fst (requests_at rl0 c ts))) c)))
             then (False, Some ''Too many requests per hour'')
             else (True, None)))"
proof (intro conjI impI)
  assume "requests_per_minute rl \<le> int (length (expire (t - 60) (window (minute_requests rl) c)))"
  then show "snd (is_allowed rl c t) = (False, Some ''Too many requests per minute'')"
    by (simp add: is_allowed_answer)
next
  assume a: "ts \<noteq> [] \<and> int (length ts) = requests_per_minute rl0
      \<and> (\<forall>x \<in> set ts. \<forall>y \<in> set ts. x - 60 \<le> y)
      \<and> snd (requests_at rl0 c ts) = replicate (length ts) (True, None)"
  then have w: "window (minute_requests (fst (requests_at rl0 c ts))) c = ts"
    by (intro requests_window_full) auto
  note l = requests_at_limits[of rl0 c ts]
  {
    assume "t' \<le> hd ts + 60"
    then have "expire (t' - 60) ts = ts" by (intro expire_keep) simp
    with w a l show "snd (is_allowed (fst (requests_at rl0 c ts)) c t')
             = (False, Some ''Too many requests per minute'')"
      by (simp add: is_allowed_answer)
  }
  have "length (expire (hd ts + 61 - 60) ts) < length ts"
    using a by (intro expire_drop) auto
  with w a l show "snd (is_allowed (fst (requests_at rl0 c ts)) c (hd ts + 61))
          = (if requests_per_hour rl0
                  \<le> int (length (expire (hd ts + 61 - 3600)
                        (window (hour_requests (fst (requests_at rl0 c ts))) c)))
             then (False, Some ''Too many requests per hour'')
             else (True, None))"
    by (simp add: is_allowed_answer)
qed

theorem minute_limit_sequence_witness:
  "requests_per_minute
     \<lparr>requests_per_minute = 2, requests_per_hour = 100,
      minute_requests = [''c'' \<mapsto> [1, 2]], hour_requests = [''c'' \<mapsto> [1, 2]],
      last_cleanup = 0, cleanup_interval = 300\<rparr>
     \<le> int (length (expire (3 - 60) (window (minute_requests
          \<lparr>requests_per_minute = 2, requests_per_hour = 100,
           minute_requests = [''c'' \<mapsto> [1, 2]], hour_requests = [''c'' \<mapsto> [1, 2]],
           last_cleanup = 0, cleanup_interval = 300\<rparr>) ''c''))) \<and>
   snd (is_allowed
     \<lparr>requests_per_minute = 2, requests_per_hour = 100,
      minute_requests = [''c'' \<mapsto> [1, 2]], hour_requests = [''c'' \<mapsto> [1, 2]],
      last_cleanup = 0, cleanup_interval = 300\<rparr> ''c'' 3)
     = (False, Some ''Too many requests per minute'') \<and>
   [1, 2] \<noteq> ([] :: real list) \<and>
   int (length [1, 2 :: real]) = requests_per_minute (new_rate_limiter 2 100 0) \<and>
   snd (requests_at (new_rate_limiter 2 100 0) ''c'' [1, 2])
     = replicate (length [1, 2 :: real]) (True, None) \<and>
   (3 :: real) \<le> hd [1, 2] + 60 \<and>
   snd (is_allowed (fst (requests_at (new_rate_limiter 2 100 0) ''c'' [1, 2])) ''c'' 3)
     = (False, Some ''Too many requests per minute'') \<and>
   snd (is_allowed (fst (requests_at (new_rate_limiter 2 100 0) ''c'' [1, 2])) ''c'' (hd [1, 2] + 61))
     = (if requests_per_hour (new_rate_limiter 2 100 0)
             \<le> int (length (expire (hd [1, 2] + 61 - 3600)
                   (window (hour_requests (fst (requests_at (new_rate_limiter 2 100 0) ''c'' [1, 2]))) ''c'')))
        then (False, Some ''Too many requests per hour'')
        else (True, None))"
proof -
  let ?full = "\<lparr>requests_per_minute = 2, requests_per_hour = 100,
      minute_requests = [''c'' \<mapsto> [1, 2]], hour_requests = [''c'' \<mapsto> [1, 2]],
      last_cleanup = 0, cleanup_interval = 300\<rparr>"
  let ?new = "new_rate_limiter 2 100 0"
  note t = minute_limit_sequence[where rl = ?full and t = 3 and c = "''c''" and ts = "[1, 2]"
      and ?rl0.0 = ?new and t' = 3]
  have h1: "requests_per_minute ?full
     \<le> int (length (expire (3 - 60) (window (minute_requests ?full) ''c'')))"
    by (simp add: window_def expire_def)
  have adm: "snd (requests_at ?new ''c'' [1, 2]) = replicate (length [1, 2 :: real]) (True, None)"
    using requests_admitted[of ?new "''c''" "[]" "[1, 2]"]
    by (simp add: new_rate_limiter_def window_def)
  have h2a: "[1, 2] \<noteq> ([] :: real list)" by simp
  have h2b: "int (length [1, 2 :: real]) = requests_per_minute ?new"
    by (simp add: new_rate_limiter_def)
  have h2c: "\<forall>x \<in> set [1, 2 :: real]. \<forall>y \<in> set [1, 2]. x - 60 \<le> y" by simp
  have h3: "(3 :: real) \<le> hd [1, 2] + 60" by simp
  note c1 = mp[OF conjunct1[OF t] h1]
  note c2 = mp[OF conjunct2[OF t] conjI[OF h2a conjI[OF h2b conjI[OF h2c adm]]]]
  note c3 = mp[OF conjunct1[OF c2] h3]
  note c4 = conjunct2[OF c2]
  from h1 c1 h2a h2b adm h3 c3 c4 show ?thesis by (intro conjI)
qed

text \<open>
  C9. A denied call records nothing: for every client, each window after the call is
  the window before it without a front part whose timestamps had all expired (older
  than 60 seconds in the minute window, than 3600 seconds in the hour window), so no
  timestamp is added anywhere. Repeating the denied request at the same time is denied
  for the same reason and leaves the state exactly as it was.
\<close>

theorem denied_consumes_nothing:
  assumes "is_allowed rl c t = (rl', False, r)"
  shows "(\<forall>c'. (\<exists>gone. window (minute_requests rl) c' = gone @ window (minute_requests rl') c'
                     \<and> (\<forall>x \<in> set gone. x < t - 60))
            \<and> (\<exists>gone. window (hour_requests rl) c' = gone @ window (hour_requests rl') c'
                     \<and> (\<forall>x \<in> set gone. x < t - 3600)))
       \<and> is_allowed rl' c t = (rl', False, r)"
proof (intro conjI allI)
  fix c'
  from denied_windows[OF assms, of c']
  show "\<exists>gone. window (minute_requests rl) c' = gone @ window (minute_requests rl') c'
                     \<and> (\<forall>x \<in> set gone. x < t - 60)"
    using expire_split[of "window (minute_requests rl) c'" "t - 60"] by (metis append_Nil empty_iff list.set(1))
  from denied_windows[OF assms, of c']
  show "\<exists>gone. window (hour_requests rl) c' = gone @ window (hour_requests rl') c'
                     \<and> (\<forall>x \<in> set gone. x < t - 3600)"
    using expire_split[of "window (hour_requests rl) c'" "t - 3600"] by (metis append_Nil empty_iff list.set(1))
next
  from assms show "is_allowed rl' c t = (rl', False, r)" by (rule denied_fixpoint)
qed

theorem denied_consumes_nothing_witness:
  "is_allowed
     \<lparr>requests_per_minute = 2, requests_per_hour = 100,
      minute_requests = [''c'' \<mapsto> [1, 2]], hour_requests = [''c'' \<mapsto> [1, 2]],
      last_cleanup = 0, cleanup_interval = 300\<rparr> ''c'' 3
   = (fst (is_allowed
     \<lparr>requests_per_minute = 2, requests_per_hour = 100,
      minute_requests = [''c'' \<mapsto> [1, 2]], hour_requests = [''c'' \<mapsto> [1, 2]],
      last_cleanup = 0, cleanup_interval = 300\<rparr> ''c'' 3),
      False, Some ''Too many requests per minute'') \<and>
   is_allowed (fst (is_allowed
     \<lparr>requests_per_minute = 2, requests_per_hour = 100,
      minute_requests = [''c'' \<mapsto> [1, 2]], hour_requests = [''c'' \<mapsto> [1, 2]],
      last_cleanup = 0, cleanup_interval = 300\<rparr> ''c'' 3)) ''c'' 3
   = (fst (is_allowed
     \<lparr>requests_per_minute = 2, requests_per_hour = 100,
      minute_requests = [''c'' \<mapsto> [1, 2]], hour_requests = [''c'' \<mapsto> [1, 2]],
      last_cleanup = 0, cleanup_interval = 300\<rparr> ''c'' 3),
      False, Some ''Too many requests per minute'')"
proof -
  let ?full = "\<lparr>requests_per_minute = 2, requests_per_hour = 100,
      minute_requests = [''c'' \<mapsto> [1, 2]], hour_requests = [''c'' \<mapsto> [1, 2]],
      last_cleanup = 0, cleanup_interval = 300\<rparr>"
  have "snd (is_allowed ?full ''c'' 3) = (False, Some ''Too many requests per minute'')"
    by (simp add: is_allowed_answer window_def expire_def)
  then have h: "is_allowed ?full ''c'' 3
       = (fst (is_allowed ?full ''c'' 3), False, Some ''Too many requests per minute'')"
    by (metis prod.collapse)
  from h conjunct2[OF denied_consumes_nothing[OF h]] show ?thesis by (rule conjI)
qed

end
